theory Spec2Isabelle
  imports Main
begin

section \<open>Strings\<close>

text \<open>
  JavaScript strings are modelled as \<^typ>\<open>string\<close>.  \<open>startsWith s p\<close> is
  \<^verbatim>\<open>s.startsWith(p)\<close> and \<open>str_includes s sub\<close> is \<^verbatim>\<open>s.includes(sub)\<close>:
  \<open>sub\<close> occurs in \<open>s\<close> as a contiguous run of characters.
\<close>

fun startsWith :: "string \<Rightarrow> string \<Rightarrow> bool" where
  "startsWith s [] = True"
| "startsWith [] (p # ps) = False"
| "startsWith (c # cs) (p # ps) = (c = p \<and> startsWith cs ps)"

fun str_includes :: "string \<Rightarrow> string \<Rightarrow> bool" where
  "str_includes [] sub = (sub = [])"
| "str_includes (c # cs) sub = (startsWith (c # cs) sub \<or> str_includes cs sub)"

section \<open>The sidecar worker (src/unnamed/part\_000)\<close>

subsection \<open>HTTP values\<close>

type_synonym headers = "(string \<times> string) list"

record HttpRequest =
  reqMethod :: string
  reqPath :: string
  reqHeaders :: headers
  reqBody :: "string option"

record HttpResponse =
  resStatus :: nat
  resHeaders :: headers
  resBody :: string

text \<open>
  What a handler hands back to the caller: either a JSON document built by
  \<^verbatim>\<open>c.json(obj, status)\<close> (the object as its list of string fields), or a
  \<^verbatim>\<open>Response\<close> object received from somewhere else and returned as it is
  (\<^verbatim>\<open>return response\<close>).  The framework around the handlers adds two more:
  \<open>NoContent hs\<close> is a response with status 204, headers \<open>hs\<close> and no body, and
  \<open>Bodiless r\<close> is the response \<open>r\<close> with its body removed.
\<close>

datatype reply =
    Json "(string \<times> string) list" nat
  | Passthrough HttpResponse
  | NoContent headers
  | Bodiless reply

text \<open>
  A value caught by \<^verbatim>\<open>catch (error)\<close>: an \<^verbatim>\<open>Error\<close> object with its
  message, or any other thrown value.
\<close>

datatype thrown = ErrorObject string | OtherValue

subsection \<open>Bounded stores (utils/request-store.js)\<close>

text \<open>
  Modelled from the spec: the module \<^verbatim>\<open>./utils/request-store.js\<close>, which exports
  \<^verbatim>\<open>requestStore\<close> and \<^verbatim>\<open>logStore\<close>, is not among the sources.  The spec
  (sections 3, 4.4, 4.5) describes both as instances of a BoundedOrderedStore of fixed
  capacity \<open>N\<close>: "when full, the oldest entry (by insertion order) is evicted before the
  new one is admitted (FIFO eviction)".
\<close>

definition admit :: "nat \<Rightarrow> 'a list \<Rightarrow> 'a \<Rightarrow> 'a list" where
  "admit N xs x = (if N \<le> length xs then drop 1 xs else xs) @ [x]"

datatype level = info | warn | error

datatype ctxValue = CorrelationId nat | Text string

record LogEntry =
  level :: level
  message :: string
  ctx :: "(string \<times> ctxValue) list option"
  category :: "string option"
  timestamp :: int

record LogStore =
  logCapacity :: nat
  entries :: "LogEntry list"

text \<open>
  Modelled from the spec: \<^verbatim>\<open>logStore.log(level, message, context?, category?)\<close>
  "appends a LogEntry, evicting the oldest entry if the store is full" (spec 4.5).
  The entry's timestamp is the clock reading \<open>now\<close> at the call.
\<close>

definition logStore_log ::
  "int \<Rightarrow> level \<Rightarrow> string \<Rightarrow> (string \<times> ctxValue) list option \<Rightarrow> string option
    \<Rightarrow> LogStore \<Rightarrow> LogStore" where
  "logStore_log now lv msg cx cat ls =
     ls\<lparr>entries := admit (logCapacity ls) (entries ls)
        \<lparr>level = lv, message = msg, ctx = cx, category = cat, timestamp = now\<rparr>\<rparr>"

record CapturedExchange =
  exchangeId :: nat
  httpMethod :: string
  path :: string
  headersIn :: headers
  startedAt :: int
  status :: "nat option"
  headersOut :: "headers option"
  completedAt :: "int option"
  durationMs :: "int option"
  exchangeError :: "string option"

record RequestStore =
  capacity :: nat
  exchanges :: "CapturedExchange list"
  nextId :: nat

text \<open>
  Modelled from the spec: \<^verbatim>\<open>requestStore.startRequest(request)\<close>, the spec's
  \<open>startExchange\<close>, "records method/path/headers/start-time and returns an opaque id
  immediately" (spec 4.4); the record is "created at proxy-start with only the "in" fields
  populated" (spec 3).  Correlation ids "are assigned deterministically and never collide"
  (spec 5): the model numbers them.
\<close>

definition startRequest :: "HttpRequest \<Rightarrow> int \<Rightarrow> RequestStore \<Rightarrow> nat \<times> RequestStore" where
  "startRequest req now rs =
     (nextId rs,
      rs\<lparr>exchanges := admit (capacity rs) (exchanges rs)
           \<lparr>exchangeId = nextId rs, httpMethod = reqMethod req, path = reqPath req,
            headersIn = reqHeaders req, startedAt = now, status = None,
            headersOut = None, completedAt = None, durationMs = None,
            exchangeError = None\<rparr>,
         nextId := Suc (nextId rs)\<rparr>)"

text \<open>
  Modelled from the spec: \<^verbatim>\<open>requestStore.completeRequest(id, response, startTime)\<close>,
  the spec's \<open>completeExchange\<close>, "fills status/headers/duration" of the record with that
  correlation id (spec 4.4).  A record that is already completed is left as it is
  (spec 8, at-most-once completion: a second call is "rejected or idempotent").
\<close>

definition complete :: "HttpResponse \<Rightarrow> int \<Rightarrow> int \<Rightarrow> CapturedExchange \<Rightarrow> CapturedExchange" where
  "complete response startTime now e =
     e\<lparr>status := Some (resStatus response), headersOut := Some (resHeaders response),
       completedAt := Some now, durationMs := Some (now - startTime)\<rparr>"

definition completeRequest ::
  "nat \<Rightarrow> HttpResponse \<Rightarrow> int \<Rightarrow> int \<Rightarrow> RequestStore \<Rightarrow> RequestStore" where
  "completeRequest rid response startTime now rs =
     rs\<lparr>exchanges :=
          map (\<lambda>e. if exchangeId e = rid \<and> completedAt e = None
                    then complete response startTime now e else e)
              (exchanges rs)\<rparr>"

text \<open>Modelled from the spec: \<open>getExchange(id)\<close>, the read-only single lookup (spec 4.4).\<close>

definition getExchange :: "nat \<Rightarrow> RequestStore \<Rightarrow> CapturedExchange option" where
  "getExchange rid rs = find (\<lambda>e. exchangeId e = rid) (exchanges rs)"

subsection \<open>The worker's state and environment\<close>

text \<open>
  The two module-level singletons \<^verbatim>\<open>requestStore\<close> and \<^verbatim>\<open>logStore\<close> are the
  worker's mutable state.  The environment \<^verbatim>\<open>c.env\<close> may hold the service binding
  \<^verbatim>\<open>USER_WORKER\<close>; its \<^verbatim>\<open>fetch\<close> either resolves with a response or throws.

  To make the order of the handlers' calls a matter of record, the state also keeps the
  list \<open>calls\<close> of the calls made so far to the two stores and to the user worker, in
  program order; \<^verbatim>\<open>startRequest\<close> is listed with the id it returned.  The program has
  no such variable.
\<close>

datatype call =
    StartRequest HttpRequest nat
  | Fetch HttpRequest
  | CompleteRequest nat HttpResponse int
  | Log level string "(string \<times> ctxValue) list option" "string option"

record WorkerState =
  requestStore :: RequestStore
  logStore :: LogStore
  calls :: "call list"

record Env =
  USER_WORKER :: "(HttpRequest \<Rightarrow> thrown + HttpResponse) option"

definition API_PREFIX :: string where
  "API_PREFIX = ''/__localflare''"

subsection \<open>Handlers\<close>

text \<open>The health check, \<^verbatim>\<open>app.get(`${API_PREFIX}/health`, ...)\<close>.\<close>

definition health :: "int \<Rightarrow> WorkerState \<Rightarrow> reply \<times> WorkerState" where
  "health now st =
     (Json [(''status'', ''ok''),
            (''message'', ''Localflare API is running with shared bindings.'')] 200,
      st\<lparr>logStore := logStore_log now info ''Health check: Localflare API is running''
                        None (Some ''system'') (logStore st),
         calls := calls st @ [Log info ''Health check: Localflare API is running''
                                None (Some ''system'')]\<rparr>)"

text \<open>
  The catch-all \<^verbatim>\<open>app.all('*', async (c) => ...)\<close> suspends once, at
  \<^verbatim>\<open>await userWorker.fetch(...)\<close>.  \<open>proxy_begin\<close> is the synchronous part of
  the \<^verbatim>\<open>if (userWorker)\<close> branch up to that point: it calls
  \<^verbatim>\<open>startRequest\<close>, reads \<^verbatim>\<open>Date.now()\<close>, calls \<^verbatim>\<open>fetch\<close> with the
  clone of the raw request and yields the request id, the start time and that clone.
  \<open>proxy_settle\<close> is the continuation, run with the outcome of the fetch at clock
  reading \<open>now\<close>: the rest of the \<^verbatim>\<open>try\<close> body, or the \<^verbatim>\<open>catch\<close> branch.
  The store operations and \<^verbatim>\<open>c.json\<close> are taken to return normally, so the only
  exception in the handler is the one the fetch may throw.
\<close>

definition clone :: "HttpRequest \<Rightarrow> HttpRequest" where
  "clone req = req"

definition proxy_begin ::
  "HttpRequest \<Rightarrow> int \<Rightarrow> WorkerState \<Rightarrow> (nat \<times> int \<times> HttpRequest) \<times> WorkerState" where
  "proxy_begin req now st =
     (let (requestId, rs) = startRequest req now (requestStore st);
          startTime = now
      in ((requestId, startTime, clone req),
          st\<lparr>requestStore := rs,
             calls := calls st @ [StartRequest req requestId, Fetch (clone req)]\<rparr>))"

definition errorMessage :: "thrown \<Rightarrow> string" where
  "errorMessage e = (case e of ErrorObject m \<Rightarrow> m | OtherValue \<Rightarrow> ''Unknown error'')"

definition proxy_settle ::
  "nat \<Rightarrow> int \<Rightarrow> thrown + HttpResponse \<Rightarrow> int \<Rightarrow> WorkerState \<Rightarrow> reply \<times> WorkerState" where
  "proxy_settle requestId startTime outcome now st =
     (case outcome of
        Inr response \<Rightarrow>
          (Passthrough response,
           st\<lparr>requestStore := completeRequest requestId response startTime now (requestStore st),
              calls := calls st @ [CompleteRequest requestId response startTime]\<rparr>)
      | Inl err \<Rightarrow>
          (Json [(''error'', ''Worker error''), (''message'', errorMessage err)] 500,
           st\<lparr>logStore := logStore_log now error (''Request failed: '' @ errorMessage err)
                             (Some [(''requestId'', CorrelationId requestId),
                                    (''error'', Text (errorMessage err))])
                             (Some ''request'') (logStore st),
              calls := calls st @
                [Log error (''Request failed: '' @ errorMessage err)
                   (Some [(''requestId'', CorrelationId requestId),
                          (''error'', Text (errorMessage err))])
                   (Some ''request'')]\<rparr>))"

definition not_bound :: reply where
  "not_bound =
     Json [(''error'', ''Not found''),
           (''message'', ''This route is not handled by Localflare API. User worker not bound.'')]
          404"

text \<open>
  One request served from start to finish with nothing interleaved: \<open>t0\<close> is the clock
  when the handler starts, \<open>t1\<close> the clock when the forwarded fetch settles.
\<close>

definition proxy_handler ::
  "Env \<Rightarrow> HttpRequest \<Rightarrow> int \<Rightarrow> int \<Rightarrow> WorkerState \<Rightarrow> reply \<times> WorkerState" where
  "proxy_handler env req t0 t1 st =
     (case USER_WORKER env of
        Some userWorker \<Rightarrow>
          (let ((requestId, startTime, forwarded), st') = proxy_begin req t0 st
           in proxy_settle requestId startTime (userWorker forwarded) t1 st')
      | None \<Rightarrow> (not_bound, st))"

subsection \<open>Requests in flight together\<close>

text \<open>
  Many requests are in flight at once: between the first half of one handler and its
  continuation, the halves of other handlers run.  An \<open>action\<close> is one such
  uninterrupted piece of work on the worker's state: the first half of the proxy handler
  for a new request, the continuation of a suspended one (for any request id and start
  time, with whatever outcome its fetch had), or the health check.  Every order in which
  the program can run its handlers is a list of actions.
\<close>

datatype action =
    Begin HttpRequest int
  | Settle nat int "thrown + HttpResponse" int
  | Health int

fun act :: "action \<Rightarrow> WorkerState \<Rightarrow> WorkerState" where
  "act (Begin req now) st = snd (proxy_begin req now st)"
| "act (Settle requestId startTime outcome now) st =
     snd (proxy_settle requestId startTime outcome now st)"
| "act (Health now) st = snd (health now st)"

fun perform :: "action list \<Rightarrow> WorkerState \<Rightarrow> WorkerState" where
  "perform [] st = st"
| "perform (a # as) st = perform as (act a st)"

text \<open>
  The record stored under an id has been changed between two states when both states
  hold a record with that id and the two differ (a record that appears or is evicted has
  not been changed).  \<open>mutations\<close> counts the actions of a run that change the record
  of one id.
\<close>

definition mutated :: "nat \<Rightarrow> WorkerState \<Rightarrow> WorkerState \<Rightarrow> bool" where
  "mutated rid st st' =
     (case getExchange rid (requestStore st) of
        None \<Rightarrow> False
      | Some e \<Rightarrow>
          (case getExchange rid (requestStore st') of
             None \<Rightarrow> False
           | Some e' \<Rightarrow> e' \<noteq> e))"

fun mutations :: "nat \<Rightarrow> action list \<Rightarrow> WorkerState \<Rightarrow> nat" where
  "mutations rid [] st = 0"
| "mutations rid (a # as) st =
     (if mutated rid st (act a st) then 1 else 0) + mutations rid as (act a st)"

text \<open>
  Modelled from the spec: the ids in a request store are those it has handed out, each
  once ("correlation ids ... never collide", spec 5).  The empty store the worker starts
  with is such a store.
\<close>

definition ids_fresh :: "RequestStore \<Rightarrow> bool" where
  "ids_fresh rs =
     (distinct (map exchangeId (exchanges rs)) \<and>
      list_all (\<lambda>e. exchangeId e < nextId rs) (exchanges rs))"

definition unmarked :: "RequestStore \<Rightarrow> bool" where
  "unmarked rs = list_all (\<lambda>e. exchangeError e = None) (exchanges rs)"

text \<open>
  Nothing further can happen to the record of an id once it is completed, or once the id
  has been handed out and its record is no longer in the store.
\<close>

definition final_for :: "nat \<Rightarrow> RequestStore \<Rightarrow> bool" where
  "final_for rid rs =
     (case getExchange rid rs of
        Some e \<Rightarrow> completedAt e \<noteq> None
      | None \<Rightarrow> rid < nextId rs)"

subsection \<open>Middleware and routing\<close>

text \<open>
  \<^verbatim>\<open>app.use('*', cors({...}))\<close> registers the CORS middleware of the \<^verbatim>\<open>hono\<close>
  library before all routes.  The library is not part of the repository; what is modelled
  of it is its control flow: for every request it computes CORS headers (here the
  parameter \<open>cors\<close>, a function of the request); a preflight request (method
  \<^verbatim>\<open>OPTIONS\<close>) is answered at once with status 204, those headers and no body, and no
  route runs; for any other request the routes run and the headers are set on the response
  they return.  A reply built by \<^verbatim>\<open>c.json\<close> has no header component in this model, so
  setting headers on it leaves it as it is.

  \<^verbatim>\<open>hono\<close> serves a \<^verbatim>\<open>HEAD\<close> request through the routes registered for
  \<^verbatim>\<open>GET\<close> and removes the body from the response.
\<close>

definition setHeader :: "string \<Rightarrow> string \<Rightarrow> headers \<Rightarrow> headers" where
  "setHeader k v hs = filter (\<lambda>h. fst h \<noteq> k) hs @ [(k, v)]"

fun withHeaders :: "headers \<Rightarrow> reply \<Rightarrow> reply" where
  "withHeaders hs (Json obj code) = Json obj code"
| "withHeaders hs (Passthrough r) =
     Passthrough (r\<lparr>resHeaders := foldl (\<lambda>acc h. setHeader (fst h) (snd h) acc) (resHeaders r) hs\<rparr>)"
| "withHeaders hs (NoContent hs') =
     NoContent (foldl (\<lambda>acc h. setHeader (fst h) (snd h) acc) hs' hs)"
| "withHeaders hs (Bodiless r) = Bodiless (withHeaders hs r)"

text \<open>
  Routes are tried in registration order: the health check, then the nine routers mounted
  with \<^verbatim>\<open>app.route\<close> below the prefix, then the catch-all.  A mounted router sees
  only paths at or below its mount point; the routers themselves are outside this model and
  are given as a parameter that may decline a request (\<open>None\<close>), which then falls through
  to the catch-all.
\<close>

definition mounts :: "string list" where
  "mounts = [''/bindings'', ''/d1'', ''/kv'', ''/r2'', ''/queues'', ''/do'', ''/logs'',
             ''/requests'', ''/analytics'']"

definition below :: "string \<Rightarrow> string \<Rightarrow> bool" where
  "below base p = (p = base \<or> startsWith p (base @ ''/''))"

type_synonym routers = "string \<Rightarrow> HttpRequest \<Rightarrow> WorkerState \<Rightarrow> (reply \<times> WorkerState) option"

definition routes ::
  "routers \<Rightarrow> Env \<Rightarrow> HttpRequest \<Rightarrow> int \<Rightarrow> int \<Rightarrow> WorkerState \<Rightarrow> reply \<times> WorkerState" where
  "routes sub env req t0 t1 st =
     (if (reqMethod req = ''GET'' \<or> reqMethod req = ''HEAD'') \<and>
         reqPath req = API_PREFIX @ ''/health''
      then health t0 st
      else case find (\<lambda>m. below (API_PREFIX @ m) (reqPath req)) mounts of
             Some m \<Rightarrow>
               (case sub m req st of
                  Some r \<Rightarrow> r
                | None \<Rightarrow> proxy_handler env req t0 t1 st)
           | None \<Rightarrow> proxy_handler env req t0 t1 st)"

definition app_fetch ::
  "(HttpRequest \<Rightarrow> headers) \<Rightarrow> routers \<Rightarrow> Env \<Rightarrow> HttpRequest \<Rightarrow> int \<Rightarrow> int \<Rightarrow> WorkerState
     \<Rightarrow> reply \<times> WorkerState" where
  "app_fetch cors sub env req t0 t1 st =
     (if reqMethod req = ''OPTIONS'' then (NoContent (cors req), st)
      else
        (let (r, st') = routes sub env req t0 t1 st;
             res = withHeaders (cors req) r
         in (if reqMethod req = ''HEAD'' then Bodiless res else res, st')))"

section \<open>The supervisor (command-line entry point, src/packages/dashboard/src/App.tsx)\<close>

subsection \<open>Options, environment and effects\<close>

text \<open>
  The parsed command-line options.  \<open>opt_port\<close> is the text of
  \<^verbatim>\<open>String(Number(options.port))\<close>; \<open>opt_open\<close> and \<open>opt_tui\<close> are
  \<^verbatim>\<open>options.open !== false\<close> and \<^verbatim>\<open>options.tui !== false\<close>.
\<close>

record Options =
  opt_port :: string
  opt_verbose :: bool
  opt_dev :: bool
  opt_open :: bool
  opt_tui :: bool
  opt_persistTo :: "string option"

text \<open>
  What the action reads from outside: the file system and path functions of Node, the
  config search and the shadow-config module (both imported, not part of this file), the
  terminal, and the arguments after \<^verbatim>\<open>--\<close>.  \<open>setupLocalflareDir\<close> either throws
  (the thrown value as \<^verbatim>\<open>`${error}`\<close> prints it) or returns the shadow config path
  and the manifest.
\<close>

record 'm Sys =
  existsSync :: "string \<Rightarrow> bool"
  resolve :: "string \<Rightarrow> string"
  dirname :: "string \<Rightarrow> string"
  join :: "string list \<Rightarrow> string"
  findWranglerConfig :: "string option"
  WRANGLER_CONFIG_FILES :: "string list"
  setupLocalflareDir :: "string \<Rightarrow> bool \<Rightarrow> string + (string \<times> 'm)"
  formatBindings :: "'m \<Rightarrow> string list"
  manifest_name :: "'m \<Rightarrow> string"
  isTTY :: bool
  wranglerPassthrough :: "string list"

text \<open>
  Everything the supervisor does to the outside, in program order.  The colour wrappers
  of \<^verbatim>\<open>picocolors\<close> and the pictographs that open some lines are left out of the
  printed strings.
\<close>

datatype effect =
    ConsoleLog string
  | StdoutWrite string
  | StderrWrite string
  | Spawn string "string list" string
  | StartTui string string string
  | SetStarted bool
  | AddOutput string
  | Unmount
  | Kill string
  | OpenBrowser string
  | Exit int

record Supervisor =
  started :: bool
  tui :: bool
  effects :: "effect list"
  exitCode :: "int option"

definition emit :: "effect list \<Rightarrow> Supervisor \<Rightarrow> Supervisor" where
  "emit es s = s\<lparr>effects := effects s @ es\<rparr>"

text \<open>\<^verbatim>\<open>process.exit(code)\<close>: nothing of the program runs afterwards.\<close>

definition process_exit :: "int \<Rightarrow> Supervisor \<Rightarrow> Supervisor" where
  "process_exit code s = s\<lparr>effects := effects s @ [Exit code], exitCode := Some code\<rparr>"

text \<open>Decimal text of a number, as a template literal renders it.\<close>

function showNat :: "nat \<Rightarrow> string" where
  "showNat n =
     (if n < 10 then [''0123456789'' ! n]
      else showNat (n div 10) @ [''0123456789'' ! (n mod 10)])"
  by pat_completeness auto
termination
  by (relation "measure id") auto

definition showInt :: "int \<Rightarrow> string" where
  "showInt i = (if i < 0 then ''-'' @ showNat (nat (- i)) else showNat (nat i))"

text \<open>\<^verbatim>\<open>xs.join(sep)\<close> on an array of strings.\<close>

fun joinWith :: "string \<Rightarrow> string list \<Rightarrow> string" where
  "joinWith sep [] = []"
| "joinWith sep [x] = x"
| "joinWith sep (x # y # ys) = x @ sep @ joinWith sep (y # ys)"

definition initial :: Supervisor where
  "initial = \<lparr>started = False, tui = False, effects = [], exitCode = None\<rparr>"

subsection \<open>Primary mode\<close>

text \<open>Finding the wrangler config: the resolved path, or the lines printed before exit 1.\<close>

definition primary_config :: "'m Sys \<Rightarrow> string option \<Rightarrow> effect list + string" where
  "primary_config sys configPath =
     (case configPath of
        Some cp \<Rightarrow>
          (if \<not> existsSync sys (resolve sys cp)
           then Inl [ConsoleLog (''  Could not find '' @ cp),
                     ConsoleLog ''    Make sure the file exists.'',
                     ConsoleLog '''']
           else Inr (resolve sys cp))
      | None \<Rightarrow>
          (case findWranglerConfig sys of
             None \<Rightarrow>
               Inl [ConsoleLog ''  Could not find wrangler config file'',
                    ConsoleLog (''    Looking for: '' @ joinWith '', '' (WRANGLER_CONFIG_FILES sys)),
                    ConsoleLog ''    Make sure you're in a Cloudflare Worker project directory.'',
                    ConsoleLog '''']
           | Some detectedConfig \<Rightarrow> Inr detectedConfig))"

definition persistPath :: "'m Sys \<Rightarrow> Options \<Rightarrow> string \<Rightarrow> string" where
  "persistPath sys options resolvedConfig =
     (case opt_persistTo options of
        Some p \<Rightarrow> resolve sys p
      | None \<Rightarrow> join sys [dirname sys resolvedConfig, ''.wrangler'', ''state''])"

definition primary_dashboardUrl :: "Options \<Rightarrow> string" where
  "primary_dashboardUrl options =
     (if opt_dev options then ''http://localhost:5174?port='' @ opt_port options
      else ''https://studio.localflare.dev?port='' @ opt_port options)"

text \<open>
  The action up to the registration of the event handlers: banner, config lookup,
  \<^verbatim>\<open>setupLocalflareDir(resolvedConfig, true)\<close> inside the \<^verbatim>\<open>try\<close>, the spawn of
  wrangler with the shadow config first, and the start of the terminal UI.  Of the calls
  inside the \<^verbatim>\<open>try\<close>, only \<^verbatim>\<open>setupLocalflareDir\<close> is modelled as one that may
  throw.
\<close>

definition primary_start :: "'m Sys \<Rightarrow> Options \<Rightarrow> string option \<Rightarrow> Supervisor" where
  "primary_start sys options configPath =
     (let s0 = emit [ConsoleLog '''', ConsoleLog ''  Localflare'',
                     ConsoleLog ''  Local Cloudflare Development Dashboard'', ConsoleLog ''''] initial
      in case primary_config sys configPath of
           Inl printed \<Rightarrow> process_exit 1 (emit printed s0)
         | Inr resolvedConfig \<Rightarrow>
             (let s1 = emit [ConsoleLog (''  Detected: '' @ resolvedConfig)] s0
              in case setupLocalflareDir sys resolvedConfig True of
                   Inl err \<Rightarrow>
                     process_exit 1
                       (emit [ConsoleLog ''  Failed to start Localflare'',
                              ConsoleLog (''    '' @ err), ConsoleLog ''''] s1)
                 | Inr (shadowConfigPath, manifest) \<Rightarrow>
                     (let bindingLines = formatBindings sys manifest;
                          s2 = emit (if bindingLines \<noteq> []
                                     then ConsoleLog ''  Linking bindings:'' # map ConsoleLog bindingLines
                                     else [ConsoleLog ''  No bindings found in wrangler.toml'']) s1;
                          s3 = emit [ConsoleLog '''',
                                     ConsoleLog ''  Starting Development Environment...'',
                                     ConsoleLog ''''] s2;
                          wranglerArgs =
                            [''wrangler'', ''dev'', ''-c'', shadowConfigPath, ''-c'', resolvedConfig,
                             ''--persist-to'', persistPath sys options resolvedConfig,
                             ''--port'', opt_port options] @ wranglerPassthrough sys;
                          s4 = emit (if wranglerPassthrough sys \<noteq> [] \<and> opt_verbose options
                                     then [ConsoleLog (''  Wrangler args: '' @
                                                       joinWith '' '' (wranglerPassthrough sys)),
                                           ConsoleLog '''']
                                     else []) s3;
                          s5 = emit [Spawn ''npx'' wranglerArgs (dirname sys resolvedConfig)] s4;
                          useTui = (isTTY sys \<and> opt_tui options)
                      in if useTui
                         then (emit [StartTui (opt_port options) (primary_dashboardUrl options)
                                       (manifest_name sys manifest)] s5)\<lparr>tui := True\<rparr>
                         else s5)))"

text \<open>The readiness test on a chunk of the child's standard output.\<close>

definition primary_ready :: "string \<Rightarrow> bool" where
  "primary_ready output = (str_includes output ''Ready'' \<or> str_includes output ''Listening'')"

definition isLocalflareNoise :: "string \<Rightarrow> bool" where
  "isLocalflareNoise output =
     (str_includes output ''/__localflare/'' \<or>
      str_includes output ''localflare-api has access'' \<or>
      str_includes output ''env.LOCALFLARE_MANIFEST'' \<or>
      str_includes output ''env.USER_WORKER'' \<or>
      str_includes output ''Reloading local server'' \<or>
      (str_includes output ''Binding'' \<and> str_includes output ''Resource'' \<and>
       str_includes output ''Mode''))"

text \<open>What is shown on entering the running state when there is no terminal UI.\<close>

definition primary_running_lines :: "Options \<Rightarrow> effect list" where
  "primary_running_lines options =
     [ConsoleLog ''  Development environment is running!'',
      ConsoleLog '''',
      ConsoleLog (''  YOUR APP:   http://localhost:'' @ opt_port options),
      ConsoleLog (''  API:        http://localhost:'' @ opt_port options @ ''/__localflare/*''),
      ConsoleLog '''',
      ConsoleLog (''  Open:       '' @ primary_dashboardUrl options),
      ConsoleLog '''',
      ConsoleLog ''  Press Ctrl+C to stop'',
      ConsoleLog '''']"

text \<open>\<^verbatim>\<open>wranglerProcess.stdout.on('data', ...)\<close>.\<close>

definition primary_stdout :: "Options \<Rightarrow> string \<Rightarrow> Supervisor \<Rightarrow> Supervisor" where
  "primary_stdout options output s =
     (let s1 = (if \<not> started s \<and> primary_ready output
                then emit ((if tui s then [SetStarted True] else primary_running_lines options) @
                           (if opt_open options then [OpenBrowser (primary_dashboardUrl options)]
                            else []))
                       (s\<lparr>started := True\<rparr>)
                else s)
      in if tui s1 then emit [AddOutput output] s1
         else if started s1 then
           (if \<not> isLocalflareNoise output then emit [StdoutWrite output] s1 else s1)
         else if opt_verbose options then emit [StdoutWrite output] s1
         else s1)"

text \<open>\<^verbatim>\<open>wranglerProcess.stderr.on('data', ...)\<close>.\<close>

definition primary_stderr :: "Options \<Rightarrow> string \<Rightarrow> Supervisor \<Rightarrow> Supervisor" where
  "primary_stderr options output s =
     (if tui s then emit [AddOutput output] s
      else if opt_verbose options then emit [StderrWrite output] s
      else s)"

text \<open>
  \<^verbatim>\<open>wranglerProcess.on('close', (code) => ...)\<close>: \<open>code\<close> is \<open>None\<close> for
  \<^verbatim>\<open>null\<close>, when the child was ended by a signal.
\<close>

definition primary_close :: "int option \<Rightarrow> Supervisor \<Rightarrow> Supervisor" where
  "primary_close code s =
     (let s1 = (if tui s then emit [Unmount] s else s);
          s2 = (case code of
                  Some c \<Rightarrow>
                    (if c \<noteq> 0
                     then emit [ConsoleLog '''',
                                ConsoleLog (''  Wrangler exited with code '' @ showInt c),
                                ConsoleLog '''',
                                ConsoleLog ''  Tip: Try running 'wrangler dev' directly to debug'',
                                ConsoleLog ''''] s1
                     else s1)
                | None \<Rightarrow> s1)
      in process_exit (case code of Some c \<Rightarrow> c | None \<Rightarrow> 0) s2)"

text \<open>The \<^verbatim>\<open>shutdown\<close> handler of SIGINT and SIGTERM, and the \<^verbatim>\<open>onExit\<close> of the terminal UI.\<close>

definition primary_shutdown :: "Supervisor \<Rightarrow> Supervisor" where
  "primary_shutdown s = emit [Kill ''SIGTERM''] (if tui s then emit [Unmount] s else s)"

definition tui_onExit :: "Supervisor \<Rightarrow> Supervisor" where
  "tui_onExit s = emit [Kill ''SIGTERM''] s"

subsection \<open>Events\<close>

datatype event =
    Stdout string
  | Stderr string
  | Close "int option"
  | Signal
  | TuiExit

fun primary_step :: "Options \<Rightarrow> event \<Rightarrow> Supervisor \<Rightarrow> Supervisor" where
  "primary_step options (Stdout output) s = primary_stdout options output s"
| "primary_step options (Stderr output) s = primary_stderr options output s"
| "primary_step options (Close code) s = primary_close code s"
| "primary_step options Signal s = primary_shutdown s"
| "primary_step options TuiExit s = (if tui s then tui_onExit s else s)"

text \<open>
  The event loop: handlers run one at a time, in the order the events arrive, until
  \<^verbatim>\<open>process.exit\<close> has been called.
\<close>

fun run :: "(event \<Rightarrow> Supervisor \<Rightarrow> Supervisor) \<Rightarrow> event list \<Rightarrow> Supervisor \<Rightarrow> Supervisor" where
  "run step [] s = s"
| "run step (e # es) s = (if exitCode s \<noteq> None then s else run step es (step e s))"

definition primary :: "'m Sys \<Rightarrow> Options \<Rightarrow> string option \<Rightarrow> event list \<Rightarrow> Supervisor" where
  "primary sys options configPath events =
     run (primary_step options) events (primary_start sys options configPath)"

subsection \<open>Attach mode\<close>

definition attach_config :: "'m Sys \<Rightarrow> string option \<Rightarrow> effect list + string" where
  "attach_config sys configPath =
     (case configPath of
        Some cp \<Rightarrow>
          (if \<not> existsSync sys (resolve sys cp)
           then Inl [ConsoleLog (''  Could not find '' @ cp)]
           else Inr (resolve sys cp))
      | None \<Rightarrow>
          (case findWranglerConfig sys of
             None \<Rightarrow>
               Inl [ConsoleLog ''  Could not find wrangler config file'',
                    ConsoleLog (''    Looking for: '' @ joinWith '', '' (WRANGLER_CONFIG_FILES sys))]
           | Some detectedConfig \<Rightarrow> Inr detectedConfig))"

definition attach_dashboardUrl :: "Options \<Rightarrow> string" where
  "attach_dashboardUrl options =
     (if opt_dev options then ''http://localhost:5174?port='' @ opt_port options
      else ''https://studio.localflare.dev?port='' @ opt_port options)"

text \<open>
  The attach action up to the registration of the event handlers; here
  \<^verbatim>\<open>setupLocalflareDir(resolvedConfig, false)\<close> is called and wrangler is spawned with
  the shadow config alone.  There is no terminal UI in this mode.
\<close>

definition attach_start :: "'m Sys \<Rightarrow> Options \<Rightarrow> string option \<Rightarrow> Supervisor" where
  "attach_start sys options configPath =
     (let s0 = emit [ConsoleLog '''', ConsoleLog ''  Localflare'',
                     ConsoleLog ''  Attach Mode - Run alongside existing wrangler dev'',
                     ConsoleLog ''''] initial
      in case attach_config sys configPath of
           Inl printed \<Rightarrow> process_exit 1 (emit printed s0)
         | Inr resolvedConfig \<Rightarrow>
             (let s1 = emit [ConsoleLog (''  Detected: '' @ resolvedConfig)] s0
              in case setupLocalflareDir sys resolvedConfig False of
                   Inl err \<Rightarrow>
                     process_exit 1
                       (emit [ConsoleLog ''  Failed to start Localflare'',
                              ConsoleLog (''    '' @ err)] s1)
                 | Inr (shadowConfigPath, manifest) \<Rightarrow>
                     (let bindingLines = formatBindings sys manifest;
                          s2 = emit (if bindingLines \<noteq> []
                                     then ConsoleLog ''  Bindings:'' # map ConsoleLog bindingLines
                                     else []) s1;
                          s3 = emit [ConsoleLog '''',
                                     ConsoleLog (''  Starting Localflare API on port '' @
                                                 opt_port options @ ''...''),
                                     ConsoleLog ''''] s2;
                          wranglerArgs =
                            [''wrangler'', ''dev'', ''-c'', shadowConfigPath,
                             ''--persist-to'', persistPath sys options resolvedConfig,
                             ''--port'', opt_port options]
                      in emit [Spawn ''npx'' wranglerArgs (dirname sys resolvedConfig)] s3)))"

definition attach_ready :: "string \<Rightarrow> bool" where
  "attach_ready output =
     (str_includes output ''Ready'' \<or>
      str_includes output ''has access to the following bindings'')"

definition attach_running_lines :: "Options \<Rightarrow> effect list" where
  "attach_running_lines options =
     [ConsoleLog ''  Localflare API is running!'',
      ConsoleLog '''',
      ConsoleLog (''  API:        http://localhost:'' @ opt_port options @ ''/__localflare/*''),
      ConsoleLog (''  Dashboard:  '' @ attach_dashboardUrl options),
      ConsoleLog '''',
      ConsoleLog ''  Your main worker should be running separately (wrangler dev, pnpm dev, etc.)'',
      ConsoleLog ''     Both share the same .wrangler/state directory for D1/KV/R2 access'',
      ConsoleLog '''',
      ConsoleLog ''  Press Ctrl+C to stop'',
      ConsoleLog '''']"

definition attach_stdout :: "Options \<Rightarrow> string \<Rightarrow> Supervisor \<Rightarrow> Supervisor" where
  "attach_stdout options output s =
     (if \<not> started s \<and> attach_ready output
      then emit (attach_running_lines options @
                 (if opt_open options then [OpenBrowser (attach_dashboardUrl options)] else []))
                (s\<lparr>started := True\<rparr>)
      else s)"

definition attach_stderr :: "string \<Rightarrow> Supervisor \<Rightarrow> Supervisor" where
  "attach_stderr output s =
     (if str_includes output ''ERROR'' \<or> str_includes output ''error''
      then emit [StderrWrite output] s
      else s)"

definition attach_close :: "int option \<Rightarrow> Supervisor \<Rightarrow> Supervisor" where
  "attach_close code s =
     (let s1 = (case code of
                  Some c \<Rightarrow>
                    (if c \<noteq> 0
                     then emit [ConsoleLog (''  Localflare API exited with code '' @ showInt c)] s
                     else s)
                | None \<Rightarrow> s)
      in process_exit (case code of Some c \<Rightarrow> c | None \<Rightarrow> 0) s1)"

definition attach_shutdown :: "Supervisor \<Rightarrow> Supervisor" where
  "attach_shutdown s = emit [Kill ''SIGTERM''] s"

fun attach_step :: "Options \<Rightarrow> event \<Rightarrow> Supervisor \<Rightarrow> Supervisor" where
  "attach_step options (Stdout output) s = attach_stdout options output s"
| "attach_step options (Stderr output) s = attach_stderr output s"
| "attach_step options (Close code) s = attach_close code s"
| "attach_step options Signal s = attach_shutdown s"
| "attach_step options TuiExit s = s"

definition attach :: "'m Sys \<Rightarrow> Options \<Rightarrow> string option \<Rightarrow> event list \<Rightarrow> Supervisor" where
  "attach sys options configPath events =
     run (attach_step options) events (attach_start sys options configPath)"

section \<open>The config synthesizer (shadow-config.js)\<close>

text \<open>
  Modelled from the spec: \<^verbatim>\<open>setupLocalflareDir\<close> and the rest of the module
  \<^verbatim>\<open>./shadow-config.js\<close> are not among the sources; only the two calls in the
  command-line entry point are.  The data model is that of spec section 3 and the
  algorithm that of spec section 4.2 (\<open>synthesize(source, isPrimary)\<close>).
\<close>

datatype kind =
    storage_db
  | kv
  | object_bucket
  | stateful_object_class
  | queue_producer
  | queue_consumer
  | variable

record BindingDeclaration =
  kind :: kind
  bindingName :: string
  resourceIdentifier :: string

record ResourceManifest =
  declaredName :: string
  entryPoint :: string
  bindings :: "BindingDeclaration list"

text \<open>
  Modelled from the spec: a manifest that the parser accepts has no "duplicate
  \<open>bindingName\<close> within the same kind namespace" (spec 4.1; spec 3 asks for more, that
  \<open>bindingName\<close> is unique within one manifest).
\<close>

definition valid_manifest :: "ResourceManifest \<Rightarrow> bool" where
  "valid_manifest m = distinct (map (\<lambda>b. (kind b, bindingName b)) (bindings m))"

text \<open>
  Modelled from the spec: the companion manifest holds the copied declarations and, in
  primary mode, "one \<open>service-reference\<close> binding pointing at the source process"
  (spec 3), "named for the user process" (spec 4.2).  The spec does not say what the
  companion's own name and entry point are; they are not part of the model.
\<close>

record CompanionManifest =
  declarations :: "BindingDeclaration list"
  serviceReference :: "string option"

text \<open>
  Modelled from the spec: "copy every non-variable BindingDeclaration verbatim (kind,
  bindingName, resourceIdentifier unchanged ...); drop plain variables ...; when
  \<open>isPrimary\<close> is true, add a \<open>service-reference\<close> binding named for the user process
  ...; when false ..., omit the service-reference" (spec 4.2).
\<close>

definition synthesize :: "ResourceManifest \<Rightarrow> bool \<Rightarrow> CompanionManifest" where
  "synthesize source isPrimary =
     \<lparr>declarations = filter (\<lambda>b. kind b \<noteq> variable) (bindings source),
      serviceReference = (if isPrimary then Some (declaredName source) else None)\<rparr>"

text \<open>How many declarations of a companion manifest carry a given name, kind and identifier.\<close>

definition occurrences :: "string \<Rightarrow> kind \<Rightarrow> string \<Rightarrow> CompanionManifest \<Rightarrow> nat" where
  "occurrences X K R c =
     length (filter (\<lambda>d. bindingName d = X \<and> kind d = K \<and> resourceIdentifier d = R)
                    (declarations c))"

section \<open>Observing a run of the supervisor\<close>

text \<open>
  The effects that show the running state (the first console line of the success output,
  or \<^verbatim>\<open>tui.setStarted(true)\<close>), the opening of the browser, the effects a run has
  added to a state, and the \<^verbatim>\<open>close\<close> events.
\<close>

definition announces_running :: "effect \<Rightarrow> bool" where
  "announces_running e =
     (e = SetStarted True \<or>
      e = ConsoleLog ''  Development environment is running!'' \<or>
      e = ConsoleLog ''  Localflare API is running!'')"

definition opens_browser :: "effect \<Rightarrow> bool" where
  "opens_browser e = (case e of OpenBrowser url \<Rightarrow> True | _ \<Rightarrow> False)"

definition since :: "Supervisor \<Rightarrow> Supervisor \<Rightarrow> effect list" where
  "since s s' = drop (length (effects s)) (effects s')"

definition is_close :: "event \<Rightarrow> bool" where
  "is_close e = (case e of Close code \<Rightarrow> True | _ \<Rightarrow> False)"

section \<open>Example inputs\<close>

definition example_request :: HttpRequest where
  "example_request = \<lparr>reqMethod = ''GET'', reqPath = ''/orders'',
                       reqHeaders = [(''accept'', ''*/*'')], reqBody = None\<rparr>"

definition health_request :: HttpRequest where
  "health_request = \<lparr>reqMethod = ''GET'', reqPath = ''/__localflare/health'',
                      reqHeaders = [], reqBody = None\<rparr>"

definition example_state :: WorkerState where
  "example_state =
     \<lparr>requestStore = \<lparr>capacity = 2, exchanges = [], nextId = 0\<rparr>,
      logStore = \<lparr>logCapacity = 2, entries = []\<rparr>,
      calls = []\<rparr>"

definition small_state :: WorkerState where
  "small_state =
     \<lparr>requestStore = \<lparr>capacity = 1, exchanges = [], nextId = 0\<rparr>,
      logStore = \<lparr>logCapacity = 2, entries = []\<rparr>,
      calls = []\<rparr>"

definition other_request :: HttpRequest where
  "other_request = \<lparr>reqMethod = ''POST'', reqPath = ''/cart'',
                     reqHeaders = [], reqBody = Some ''{}''\<rparr>"

definition ok_response :: HttpResponse where
  "ok_response = \<lparr>resStatus = 200, resHeaders = [], resBody = ''/orders''\<rparr>"

definition example_cors :: "HttpRequest \<Rightarrow> headers" where
  "example_cors r = [(''access-control-allow-credentials'', ''true'')]"

definition failing_worker :: "HttpRequest \<Rightarrow> thrown + HttpResponse" where
  "failing_worker r = Inl (ErrorObject ''connection refused'')"


definition no_routers :: routers where
  "no_routers m r st = None"

definition full_log_state :: WorkerState where
  "full_log_state =
     \<lparr>requestStore = \<lparr>capacity = 2, exchanges = [], nextId = 0\<rparr>,
      logStore =
        \<lparr>logCapacity = 2,
         entries = [\<lparr>level = warn, message = ''first'', ctx = None, category = None,
                     timestamp = 1\<rparr>,
                    \<lparr>level = info, message = ''second'', ctx = None, category = None,
                     timestamp = 2\<rparr>]\<rparr>,
      calls = []\<rparr>"

definition example_options :: Options where
  "example_options =
     \<lparr>opt_port = ''8787'', opt_verbose = False, opt_dev = False, opt_open = True,
      opt_tui = True, opt_persistTo = None\<rparr>"

definition verbose_options :: Options where
  "verbose_options = example_options\<lparr>opt_verbose := True\<rparr>"

definition example_sys :: "string list Sys" where
  "example_sys =
     \<lparr>existsSync = (\<lambda>p. p = ''/app/wrangler.toml''),
      resolve = (\<lambda>p. ''/app/'' @ p),
      dirname = (\<lambda>p. ''/app''),
      join = joinWith ''/'',
      findWranglerConfig = Some ''/app/wrangler.toml'',
      WRANGLER_CONFIG_FILES = [''wrangler.toml'', ''wrangler.json'', ''wrangler.jsonc''],
      setupLocalflareDir = (\<lambda>p isPrimary. Inr (''/app/.localflare/wrangler.toml'', [''    DB (d1)''])),
      formatBindings = (\<lambda>m. m),
      manifest_name = (\<lambda>m. ''my-worker''),
      isTTY = False,
      wranglerPassthrough = []\<rparr>"

definition broken_sys :: "string list Sys" where
  "broken_sys = example_sys\<lparr>setupLocalflareDir := (\<lambda>p isPrimary. Inl ''Error: invalid wrangler.toml'')\<rparr>"

definition running_console :: Supervisor where
  "running_console = \<lparr>started = True, tui = False, effects = [], exitCode = None\<rparr>"

definition two_line_chunk :: string where
  "two_line_chunk =
     ''GET /orders 200 OK'' @ [CHR 0x0A] @ ''GET /__localflare/health 200 OK'' @ [CHR 0x0A]"

definition example_manifest :: ResourceManifest where
  "example_manifest =
     \<lparr>declaredName = ''my-worker'', entryPoint = ''src/index.ts'',
      bindings =
        [\<lparr>kind = storage_db, bindingName = ''DB'', resourceIdentifier = ''abc-123''\<rparr>,
         \<lparr>kind = variable, bindingName = ''API_KEY'', resourceIdentifier = ''secret''\<rparr>,
         \<lparr>kind = kv, bindingName = ''CACHE'', resourceIdentifier = ''kv-1''\<rparr>]\<rparr>"

section \<open>Properties of the sidecar worker\<close>

subsection \<open>Routing\<close>

lemma startsWith_append: "startsWith p (a @ b) \<Longrightarrow> startsWith p a"
  by (induction p a rule: startsWith.induct) auto

lemma startsWith_self_append: "startsWith (a @ b) a"
  by (induction a) auto

lemma outside_prefix_not_below:
  "\<not> startsWith p API_PREFIX \<Longrightarrow> \<not> below (API_PREFIX @ m) p"
  unfolding below_def
  using startsWith_append[of p API_PREFIX] startsWith_self_append[of API_PREFIX m]
  by (auto simp del: startsWith.simps)

text \<open>
  A request outside the inspector prefix is matched by no inspector route; unless it is a
  preflight request, it is served by the catch-all, with the CORS headers set on the reply
  and, for \<^verbatim>\<open>HEAD\<close>, the body removed.
\<close>

lemma outside_prefix_catch_all:
  assumes "\<not> startsWith (reqPath req) API_PREFIX"
  shows "routes sub env req t0 t1 st = proxy_handler env req t0 t1 st"
proof -
  have "reqPath req \<noteq> API_PREFIX @ ''/health''"
    using assms startsWith_self_append[of API_PREFIX "''/health''"] by auto
  moreover have "find (\<lambda>m. below (API_PREFIX @ m) (reqPath req)) mounts = None"
    using assms by (simp add: find_None_iff outside_prefix_not_below)
  ultimately show ?thesis by (simp add: routes_def)
qed

lemma outside_prefix_app_fetch:
  assumes "\<not> startsWith (reqPath req) API_PREFIX" and "reqMethod req \<noteq> ''OPTIONS''"
  shows "app_fetch cors sub env req t0 t1 st =
           ((if reqMethod req = ''HEAD''
             then Bodiless (withHeaders (cors req) (fst (proxy_handler env req t0 t1 st)))
             else withHeaders (cors req) (fst (proxy_handler env req t0 t1 st))),
            snd (proxy_handler env req t0 t1 st))"
  using assms by (simp add: app_fetch_def outside_prefix_catch_all case_prod_beta)

subsection \<open>The stores\<close>

lemma last_admit: "last (admit N xs x) = x"
  by (simp add: admit_def)

lemma find_snoc_fresh:
  "list_all (\<lambda>y. \<not> P y) ys \<Longrightarrow> P x \<Longrightarrow> find P (ys @ [x]) = Some x"
  by (induction ys) auto

lemma find_snoc_other: "\<not> P x \<Longrightarrow> find P (ys @ [x]) = find P ys"
  by (induction ys) auto

lemma find_drop_distinct:
  assumes "distinct (map f xs)"
  shows "find (\<lambda>e. f e = k) (drop 1 xs) = None \<or>
         find (\<lambda>e. f e = k) (drop 1 xs) = find (\<lambda>e. f e = k) xs"
proof (cases xs)
  case Nil
  then show ?thesis by simp
next
  case (Cons x ys)
  show ?thesis
  proof (cases "f x = k")
    case True
    then have "list_all (\<lambda>e. f e \<noteq> k) ys"
      using assms Cons by (auto simp: list_all_iff image_iff)
    then have "find (\<lambda>e. f e = k) ys = None"
      by (simp add: find_None_iff list_all_iff)
    then show ?thesis using Cons by simp
  next
    case False
    then show ?thesis using Cons by simp
  qed
qed

lemma find_admit_fresh:
  assumes "list_all (\<lambda>y. \<not> P y) xs" and "P x"
  shows "find P (admit N xs x) = Some x"
proof -
  have "list_all (\<lambda>y. \<not> P y) (drop 1 xs)"
    using assms(1) by (auto simp: list_all_iff dest: in_set_dropD)
  then show ?thesis
    using assms by (simp add: admit_def find_snoc_fresh)
qed

lemma find_admit_other:
  assumes "distinct (map f xs)" and "f x \<noteq> k"
  shows "find (\<lambda>e. f e = k) (admit N xs x) = None \<or>
         find (\<lambda>e. f e = k) (admit N xs x) = find (\<lambda>e. f e = k) xs"
  using assms find_drop_distinct [of f xs k]
  by (auto simp: admit_def find_snoc_other)

lemma getExchange_after_start:
  assumes "ids_fresh rs"
  shows "getExchange (nextId rs) (snd (startRequest req now rs)) =
           Some \<lparr>exchangeId = nextId rs, httpMethod = reqMethod req, path = reqPath req,
                 headersIn = reqHeaders req, startedAt = now, status = None,
                 headersOut = None, completedAt = None, durationMs = None,
                 exchangeError = None\<rparr>"
proof -
  have "list_all (\<lambda>e. \<not> exchangeId e = nextId rs) (exchanges rs)"
    using assms by (auto simp: ids_fresh_def list_all_iff)
  then show ?thesis
    by (simp add: getExchange_def startRequest_def find_admit_fresh)
qed

lemma getExchange_start_other:
  assumes "ids_fresh rs" and "rid \<noteq> nextId rs"
  shows "getExchange rid (snd (startRequest req now rs)) = None \<or>
         getExchange rid (snd (startRequest req now rs)) = getExchange rid rs"
  using assms find_admit_other [of exchangeId "exchanges rs" _ rid "capacity rs"]
  by (simp add: getExchange_def startRequest_def ids_fresh_def)

lemma getExchange_absent:
  assumes "ids_fresh rs" and "nextId rs \<le> rid"
  shows "getExchange rid rs = None"
  using assms by (auto simp: getExchange_def ids_fresh_def find_None_iff list_all_iff)

lemma getExchange_id: "getExchange rid rs = Some e \<Longrightarrow> exchangeId e = rid \<and> e \<in> set (exchanges rs)"
  by (auto simp: getExchange_def find_Some_iff)

lemma ids_fresh_start: "ids_fresh rs \<Longrightarrow> ids_fresh (snd (startRequest req now rs))"
proof -
  assume a: "ids_fresh rs"
  let ?ys = "if capacity rs \<le> length (exchanges rs) then drop 1 (exchanges rs) else exchanges rs"
  have sub: "set ?ys \<subseteq> set (exchanges rs)"
    by (auto dest: in_set_dropD)
  have d: "distinct (map exchangeId ?ys)"
    using a by (auto simp: ids_fresh_def distinct_drop simp flip: drop_map)
  have lt: "\<forall>e \<in> set ?ys. exchangeId e < nextId rs"
    using a sub by (auto simp: ids_fresh_def list_all_iff)
  then have "nextId rs \<notin> exchangeId ` set ?ys"
    by auto
  then show ?thesis
    using d lt by (auto simp: ids_fresh_def startRequest_def admit_def list_all_iff less_Suc_eq)
qed

lemma find_complete:
  "find (\<lambda>e. exchangeId e = rid)
     (map (\<lambda>e. if exchangeId e = rid \<and> completedAt e = None
                then complete response startTime now e else e) xs) =
   map_option (\<lambda>e. if completedAt e = None then complete response startTime now e else e)
     (find (\<lambda>e. exchangeId e = rid) xs)"
  by (induction xs) (auto simp: complete_def)

lemma find_complete_other:
  "rid' \<noteq> rid \<Longrightarrow>
   find (\<lambda>e. exchangeId e = rid')
     (map (\<lambda>e. if exchangeId e = rid \<and> completedAt e = None
                then complete response startTime now e else e) xs) =
   find (\<lambda>e. exchangeId e = rid') xs"
  by (induction xs) (auto simp: complete_def)

lemma getExchange_completeRequest:
  "getExchange rid (completeRequest rid response startTime now rs) =
     map_option (\<lambda>e. if completedAt e = None then complete response startTime now e else e)
       (getExchange rid rs)"
  by (simp add: getExchange_def completeRequest_def find_complete)

lemma getExchange_completeRequest_other:
  "rid' \<noteq> rid \<Longrightarrow>
   getExchange rid' (completeRequest rid response startTime now rs) = getExchange rid' rs"
  by (simp add: getExchange_def completeRequest_def find_complete_other)

lemma exchangeId_complete_map:
  "map exchangeId
     (map (\<lambda>e. if exchangeId e = rid \<and> completedAt e = None
                then complete response startTime now e else e) xs) = map exchangeId xs"
  by (induction xs) (auto simp: complete_def)

lemma ids_fresh_complete:
  assumes "ids_fresh rs"
  shows "ids_fresh (completeRequest rid response startTime now rs)"
proof -
  let ?g = "\<lambda>e. if exchangeId e = rid \<and> completedAt e = None
                then complete response startTime now e else e"
  have ids: "map exchangeId (map ?g (exchanges rs)) = map exchangeId (exchanges rs)"
    by (rule exchangeId_complete_map)
  have "distinct (map exchangeId (map ?g (exchanges rs)))"
    unfolding ids using assms by (simp add: ids_fresh_def)
  moreover have "list_all (\<lambda>e. exchangeId e < nextId rs) (map ?g (exchanges rs))"
    using assms by (auto simp: ids_fresh_def list_all_iff complete_def)
  ultimately show ?thesis
    by (simp add: ids_fresh_def completeRequest_def del: map_map)
qed

subsection \<open>Actions\<close>

lemma requestStore_act:
  "requestStore (snd (proxy_begin req now st)) = snd (startRequest req now (requestStore st))"
  "requestStore (snd (proxy_settle rid startTime (Inr response) now st)) =
     completeRequest rid response startTime now (requestStore st)"
  "requestStore (snd (proxy_settle rid startTime (Inl err) now st)) = requestStore st"
  "requestStore (snd (health now st)) = requestStore st"
  by (simp_all add: proxy_begin_def proxy_settle_def health_def case_prod_beta)

lemma nextId_start: "nextId (snd (startRequest req now rs)) = Suc (nextId rs)"
  by (simp add: startRequest_def)

lemma nextId_complete: "nextId (completeRequest rid response startTime now rs) = nextId rs"
  by (simp add: completeRequest_def)

lemma act_ids_fresh:
  assumes "ids_fresh (requestStore st)"
  shows "ids_fresh (requestStore (act a st))"
proof (cases a)
  case (Begin req now)
  then show ?thesis
    using assms by (simp add: requestStore_act ids_fresh_start)
next
  case (Settle rid startTime outcome now)
  then show ?thesis
    using assms by (cases outcome) (simp_all add: requestStore_act ids_fresh_complete)
next
  case (Health now)
  then show ?thesis
    using assms by (simp add: requestStore_act)
qed

lemma mutated_same: "requestStore st' = requestStore st \<Longrightarrow> \<not> mutated rid st st'"
  by (simp add: mutated_def split: option.splits)

lemma begin_not_mutated:
  assumes "ids_fresh (requestStore st)"
  shows "\<not> mutated rid st (act (Begin req now) st)"
proof (cases "rid = nextId (requestStore st)")
  case True
  then have "getExchange rid (requestStore st) = None"
    using assms getExchange_absent by simp
  then show ?thesis by (simp add: mutated_def)
next
  case False
  then show ?thesis
    using getExchange_start_other [OF assms False, of req now]
    by (auto simp: mutated_def requestStore_act split: option.splits)
qed

lemma begin_final:
  assumes "ids_fresh (requestStore st)" and "final_for rid (requestStore st)"
  shows "final_for rid (requestStore (act (Begin req now) st))"
proof -
  have below: "rid < nextId (requestStore st)"
  proof (cases "getExchange rid (requestStore st)")
    case None
    then show ?thesis using assms(2) by (simp add: final_for_def)
  next
    case (Some e)
    then have "exchangeId e = rid" "e \<in> set (exchanges (requestStore st))"
      using getExchange_id by blast+
    then show ?thesis
      using assms(1) by (auto simp: ids_fresh_def list_all_iff)
  qed
  then have other: "rid \<noteq> nextId (requestStore st)"
    by simp
  show ?thesis
    using getExchange_start_other [OF assms(1) other, of req now] assms(2) below
    by (auto simp: final_for_def requestStore_act nextId_start split: option.splits)
qed

lemma settle_mutated:
  assumes "mutated rid st (act (Settle rid' startTime outcome now) st)"
  shows "rid' = rid \<and>
         (\<exists>response e. outcome = Inr response \<and>
            getExchange rid (requestStore st) = Some e \<and> completedAt e = None \<and>
            getExchange rid (requestStore (act (Settle rid' startTime outcome now) st)) =
              Some (complete response startTime now e))"
proof (cases outcome)
  case (Inl err)
  then show ?thesis
    using assms mutated_same [of "act (Settle rid' startTime outcome now) st" st rid]
    by (simp add: requestStore_act)
next
  case (Inr response)
  have same: "rid' = rid"
  proof (rule ccontr)
    assume "rid' \<noteq> rid"
    then have "rid \<noteq> rid'" by simp
    then have "getExchange rid (requestStore (act (Settle rid' startTime outcome now) st)) =
               getExchange rid (requestStore st)"
      using Inr by (simp add: requestStore_act getExchange_completeRequest_other)
    then show False
      using assms by (simp add: mutated_def split: option.splits)
  qed
  obtain e where e: "getExchange rid (requestStore st) = Some e"
    using assms by (auto simp: mutated_def split: option.splits)
  have after: "getExchange rid (requestStore (act (Settle rid' startTime outcome now) st)) =
               Some (if completedAt e = None then complete response startTime now e else e)"
    using Inr same e by (simp add: requestStore_act getExchange_completeRequest)
  have "completedAt e = None"
    using assms e after by (auto simp: mutated_def split: if_splits)
  then show ?thesis
    using same Inr e after by simp
qed

lemma settle_final:
  assumes "final_for rid (requestStore st)"
  shows "final_for rid (requestStore (act (Settle rid' startTime outcome now) st))"
proof (cases outcome)
  case (Inl err)
  then show ?thesis using assms by (simp add: requestStore_act)
next
  case (Inr response)
  show ?thesis
  proof (cases "rid' = rid")
    case True
    then show ?thesis
      using assms Inr
      by (auto simp: final_for_def requestStore_act getExchange_completeRequest
          nextId_complete complete_def split: option.splits)
  next
    case False
    then have "rid \<noteq> rid'" by simp
    then show ?thesis
      using assms Inr
      by (auto simp: final_for_def requestStore_act getExchange_completeRequest_other
          nextId_complete split: option.splits)
  qed
qed

lemma act_final:
  assumes "ids_fresh (requestStore st)" and "final_for rid (requestStore st)"
  shows "final_for rid (requestStore (act a st)) \<and> \<not> mutated rid st (act a st)"
proof (cases a)
  case (Begin req now)
  then show ?thesis
    using assms begin_final begin_not_mutated by simp
next
  case (Settle rid' startTime outcome now)
  have "\<not> mutated rid st (act (Settle rid' startTime outcome now) st)"
  proof
    assume m: "mutated rid st (act (Settle rid' startTime outcome now) st)"
    then obtain e where "getExchange rid (requestStore st) = Some e" "completedAt e = None"
      using settle_mutated by blast
    then show False
      using assms(2) by (simp add: final_for_def)
  qed
  then show ?thesis
    using Settle assms(2) settle_final by simp
next
  case (Health now)
  then show ?thesis
    using assms(2) mutated_same [of "act (Health now) st" st rid]
    by (simp add: requestStore_act)
qed

lemma mutated_is_completion:
  assumes "ids_fresh (requestStore st)" and "mutated rid st (act a st)"
  shows "\<exists>startTime response now e.
           a = Settle rid startTime (Inr response) now \<and>
           getExchange rid (requestStore st) = Some e \<and> completedAt e = None \<and>
           getExchange rid (requestStore (act a st)) = Some (complete response startTime now e)"
proof (cases a)
  case (Begin req now)
  then show ?thesis
    using assms begin_not_mutated by simp
next
  case (Settle rid' startTime outcome now)
  then show ?thesis
    using assms(2) settle_mutated [of rid st rid' startTime outcome now] by auto
next
  case (Health now)
  then show ?thesis
    using assms(2) mutated_same [of "act (Health now) st" st rid]
    by (simp add: requestStore_act)
qed

lemma mutated_final:
  assumes "ids_fresh (requestStore st)" and "mutated rid st (act a st)"
  shows "final_for rid (requestStore (act a st))"
proof -
  obtain startTime response now e where
    "getExchange rid (requestStore (act a st)) = Some (complete response startTime now e)"
    using mutated_is_completion [OF assms] by blast
  then show ?thesis
    by (simp add: final_for_def complete_def)
qed

lemma mutations_final:
  assumes "ids_fresh (requestStore st)" and "final_for rid (requestStore st)"
  shows "mutations rid as st = 0"
  using assms
proof (induction as arbitrary: st)
  case Nil
  show ?case by simp
next
  case (Cons a as)
  have "final_for rid (requestStore (act a st))" "\<not> mutated rid st (act a st)"
    using act_final [OF Cons.prems] by simp_all
  moreover have "ids_fresh (requestStore (act a st))"
    using Cons.prems(1) by (rule act_ids_fresh)
  ultimately show ?case
    using Cons.IH [of "act a st"] by simp
qed

lemma mutations_at_most_once:
  assumes "ids_fresh (requestStore st)"
  shows "mutations rid as st \<le> 1"
  using assms
proof (induction as arbitrary: st)
  case Nil
  show ?case by simp
next
  case (Cons a as)
  have fresh: "ids_fresh (requestStore (act a st))"
    using Cons.prems by (rule act_ids_fresh)
  show ?case
  proof (cases "mutated rid st (act a st)")
    case True
    then have "final_for rid (requestStore (act a st))"
      using Cons.prems mutated_final by simp
    then have "mutations rid as (act a st) = 0"
      using fresh mutations_final by simp
    then show ?thesis using True by simp
  next
    case False
    then show ?thesis
      using Cons.IH [OF fresh] by simp
  qed
qed

lemma unmarked_act:
  assumes "unmarked (requestStore st)"
  shows "unmarked (requestStore (act a st))"
proof (cases a)
  case (Begin req now)
  then show ?thesis
    using assms
    by (auto simp: unmarked_def requestStore_act startRequest_def admit_def list_all_iff
        dest: in_set_dropD)
next
  case (Settle rid startTime outcome now)
  then show ?thesis
    using assms
    by (cases outcome)
       (auto simp: unmarked_def requestStore_act completeRequest_def complete_def list_all_iff)
next
  case (Health now)
  then show ?thesis
    using assms by (simp add: requestStore_act)
qed

lemma unmarked_perform:
  "unmarked (requestStore st) \<Longrightarrow> unmarked (requestStore (perform as st))"
  by (induction as arbitrary: st) (simp_all add: unmarked_act)

subsection \<open>The handlers\<close>



text \<open>
  C3.  When the fetch of the user worker throws, the handler returns (it does not throw
  again) a JSON reply with status 500, and the log store has received one entry of level
  \<open>error\<close>, category \<open>request\<close>, whose context carries the correlation id that
  \<^verbatim>\<open>startRequest\<close> returned for this request; that entry is the newest one.  The
  calls made are \<^verbatim>\<open>startRequest\<close>, the fetch and \<^verbatim>\<open>logStore.log\<close>, in this
  order.
\<close>

theorem forward_failure_logged_500:
  assumes "USER_WORKER env = Some userWorker" and "userWorker req = Inl err"
  shows "proxy_handler env req t0 t1 st =
           (Json [(''error'', ''Worker error''), (''message'', errorMessage err)] 500,
            st\<lparr>requestStore := snd (startRequest req t0 (requestStore st)),
               logStore := logStore_log t1 error (''Request failed: '' @ errorMessage err)
                             (Some [(''requestId'', CorrelationId (fst (startRequest req t0 (requestStore st)))),
                                    (''error'', Text (errorMessage err))])
                             (Some ''request'') (logStore st),
               calls := calls st @
                 [StartRequest req (fst (startRequest req t0 (requestStore st))),
                  Fetch req,
                  Log error (''Request failed: '' @ errorMessage err)
                    (Some [(''requestId'', CorrelationId (fst (startRequest req t0 (requestStore st)))),
                           (''error'', Text (errorMessage err))])
                    (Some ''request'')]\<rparr>) \<and>
         last (entries (logStore (snd (proxy_handler env req t0 t1 st)))) =
           \<lparr>level = error, message = ''Request failed: '' @ errorMessage err,
            ctx = Some [(''requestId'', CorrelationId (fst (startRequest req t0 (requestStore st)))),
                        (''error'', Text (errorMessage err))],
            category = Some ''request'', timestamp = t1\<rparr>"
  using assms
  by (simp add: proxy_handler_def proxy_begin_def proxy_settle_def clone_def
      logStore_log_def last_admit case_prod_beta)

theorem forward_failure_logged_500_witness:
  "proxy_handler \<lparr>USER_WORKER = Some failing_worker\<rparr> example_request 0 5 example_state =
     (Json [(''error'', ''Worker error''), (''message'', ''connection refused'')] 500,
      \<lparr>requestStore =
         \<lparr>capacity = 2,
          exchanges = [\<lparr>exchangeId = 0, httpMethod = ''GET'', path = ''/orders'',
                        headersIn = [(''accept'', ''*/*'')], startedAt = 0, status = None,
                        headersOut = None, completedAt = None, durationMs = None,
                        exchangeError = None\<rparr>],
          nextId = 1\<rparr>,
       logStore =
         \<lparr>logCapacity = 2,
          entries = [\<lparr>level = error, message = ''Request failed: connection refused'',
                      ctx = Some [(''requestId'', CorrelationId 0),
                                  (''error'', Text ''connection refused'')],
                      category = Some ''request'', timestamp = 5\<rparr>]\<rparr>,
       calls =
         [StartRequest example_request 0, Fetch example_request,
          Log error ''Request failed: connection refused''
            (Some [(''requestId'', CorrelationId 0), (''error'', Text ''connection refused'')])
            (Some ''request'')]\<rparr>)"
  using forward_failure_logged_500 [of "\<lparr>USER_WORKER = Some failing_worker\<rparr>" failing_worker
      example_request "ErrorObject ''connection refused''" 0 5 example_state]
  by (simp add: failing_worker_def example_state_def errorMessage_def
      startRequest_def logStore_log_def admit_def)
     (simp add: example_request_def)

text \<open>
  C4, as the code has it.  In whatever state it runs and for whatever request id, the
  continuation of a handler whose forward threw leaves the request store exactly as it
  was: the record of the request is left untouched and is not marked as failed.  No run of
  the worker, with its handlers interleaved in any order, ever sets the error field of a
  record.  In a store whose ids are those it has handed out: the record made by
  \<^verbatim>\<open>startRequest\<close> is stored under the returned id with only its "in" fields set; in
  every run the record of any one id is changed by at most one action; an action that
  changes it is the continuation of a forward that resolved, applied to a record not yet
  completed, and what it does is to fill the "out" fields; and after a request served
  without interleaving whose forward threw, the record is still the one made at the start.
\<close>

theorem failed_forward_not_marked:
  "requestStore (act (Settle rid startTime (Inl err) t) st) = requestStore st \<and>
   (unmarked (requestStore st) \<longrightarrow> unmarked (requestStore (perform acts st))) \<and>
   (ids_fresh (requestStore st) \<longrightarrow>
      fst (fst (proxy_begin req t0 st)) = nextId (requestStore st) \<and>
      getExchange (nextId (requestStore st)) (requestStore (act (Begin req t0) st)) =
        Some \<lparr>exchangeId = nextId (requestStore st), httpMethod = reqMethod req,
              path = reqPath req, headersIn = reqHeaders req, startedAt = t0, status = None,
              headersOut = None, completedAt = None, durationMs = None,
              exchangeError = None\<rparr> \<and>
      mutations rid acts st \<le> 1 \<and>
      (mutated rid st (act a st) \<longrightarrow>
         (\<exists>startTime' response t' e.
            a = Settle rid startTime' (Inr response) t' \<and>
            getExchange rid (requestStore st) = Some e \<and> completedAt e = None \<and>
            getExchange rid (requestStore (act a st)) =
              Some (e\<lparr>status := Some (resStatus response),
                       headersOut := Some (resHeaders response),
                       completedAt := Some t', durationMs := Some (t' - startTime')\<rparr>))) \<and>
      (USER_WORKER env = Some userWorker \<and> userWorker req = Inl err \<longrightarrow>
         getExchange (nextId (requestStore st))
           (requestStore (snd (proxy_handler env req t0 t1 st))) =
           Some \<lparr>exchangeId = nextId (requestStore st), httpMethod = reqMethod req,
                 path = reqPath req, headersIn = reqHeaders req, startedAt = t0,
                 status = None, headersOut = None, completedAt = None, durationMs = None,
                 exchangeError = None\<rparr>))"
proof -
  have untouched: "requestStore (act (Settle rid startTime (Inl err) t) st) = requestStore st"
    by (simp add: requestStore_act)
  have never: "unmarked (requestStore (perform acts st))" if "unmarked (requestStore st)"
    using that by (rule unmarked_perform)
  have id: "fst (fst (proxy_begin req t0 st)) = nextId (requestStore st)"
    by (simp add: proxy_begin_def startRequest_def case_prod_beta)
  have created:
    "getExchange (nextId (requestStore st)) (requestStore (act (Begin req t0) st)) =
        Some \<lparr>exchangeId = nextId (requestStore st), httpMethod = reqMethod req,
              path = reqPath req, headersIn = reqHeaders req, startedAt = t0, status = None,
              headersOut = None, completedAt = None, durationMs = None,
              exchangeError = None\<rparr>"
    if "ids_fresh (requestStore st)"
    using that by (simp add: requestStore_act getExchange_after_start)
  have once: "mutations rid acts st \<le> 1" if "ids_fresh (requestStore st)"
    using that by (rule mutations_at_most_once)
  have completion:
    "\<exists>startTime' response t' e.
        a = Settle rid startTime' (Inr response) t' \<and>
        getExchange rid (requestStore st) = Some e \<and> completedAt e = None \<and>
        getExchange rid (requestStore (act a st)) =
          Some (e\<lparr>status := Some (resStatus response),
                   headersOut := Some (resHeaders response),
                   completedAt := Some t', durationMs := Some (t' - startTime')\<rparr>)"
    if "ids_fresh (requestStore st)" "mutated rid st (act a st)"
    using mutated_is_completion [OF that] by (simp add: complete_def)
  have sequential:
    "getExchange (nextId (requestStore st))
        (requestStore (snd (proxy_handler env req t0 t1 st))) =
        Some \<lparr>exchangeId = nextId (requestStore st), httpMethod = reqMethod req,
              path = reqPath req, headersIn = reqHeaders req, startedAt = t0,
              status = None, headersOut = None, completedAt = None, durationMs = None,
              exchangeError = None\<rparr>"
    if "ids_fresh (requestStore st)" "USER_WORKER env = Some userWorker"
      "userWorker req = Inl err"
  proof -
    have "requestStore (snd (proxy_handler env req t0 t1 st)) =
            snd (startRequest req t0 (requestStore st))"
      using that(2,3)
      by (simp add: proxy_handler_def proxy_begin_def proxy_settle_def clone_def
          case_prod_beta)
    then show ?thesis
      using that(1) by (simp add: getExchange_after_start)
  qed
  show ?thesis
    using untouched never id created once completion sequential by blast
qed

theorem failed_forward_not_marked_witness:
  "ids_fresh (requestStore small_state) \<and>
   unmarked (requestStore small_state) \<and>
   unmarked (requestStore
     (perform [Begin example_request 0, Begin other_request 1,
               Settle 0 0 (Inr ok_response) 5, Settle 1 1 (Inl OtherValue) 6] small_state)) \<and>
   mutations 0 [Begin example_request 0, Begin other_request 1,
                Settle 0 0 (Inr ok_response) 5, Settle 1 1 (Inl OtherValue) 6] small_state \<le> 1 \<and>
   getExchange 0 (requestStore (act (Begin example_request 0) small_state)) =
     Some \<lparr>exchangeId = 0, httpMethod = ''GET'', path = ''/orders'',
           headersIn = [(''accept'', ''*/*'')], startedAt = 0, status = None,
           headersOut = None, completedAt = None, durationMs = None, exchangeError = None\<rparr> \<and>
   getExchange 0
     (requestStore (snd (proxy_handler \<lparr>USER_WORKER = Some failing_worker\<rparr> example_request 0 5
                           small_state))) =
     Some \<lparr>exchangeId = 0, httpMethod = ''GET'', path = ''/orders'',
           headersIn = [(''accept'', ''*/*'')], startedAt = 0, status = None,
           headersOut = None, completedAt = None, durationMs = None, exchangeError = None\<rparr>"
proof -
  have fresh: "ids_fresh (requestStore small_state)"
    by (simp add: small_state_def ids_fresh_def)
  have clean: "unmarked (requestStore small_state)"
    by (simp add: small_state_def unmarked_def)
  have failing: "USER_WORKER \<lparr>USER_WORKER = Some failing_worker\<rparr> = Some failing_worker \<and>
                 failing_worker example_request = Inl (ErrorObject ''connection refused'')"
    by (simp add: failing_worker_def)
  have start: "nextId (requestStore small_state) = 0"
    by (simp add: small_state_def)
  show ?thesis
    using fresh clean failing
      failed_forward_not_marked [of 0 0 "ErrorObject ''connection refused''" 0 small_state
        "[Begin example_request 0, Begin other_request 1,
          Settle 0 0 (Inr ok_response) 5, Settle 1 1 (Inl OtherValue) 6]"
        example_request 0 "Begin example_request 0" "\<lparr>USER_WORKER = Some failing_worker\<rparr>"
        failing_worker 5]
    by (simp add: start) (simp add: example_request_def)
qed

text \<open>
  C4 as stated fails: after a forward that threw, the record of that request is still the
  one made at proxy start, with no error recorded and no "out" field set.
\<close>

theorem failed_forward_marked_counterexample:
  "getExchange 0
     (requestStore (snd (proxy_handler \<lparr>USER_WORKER = Some failing_worker\<rparr> example_request 0 5
                           example_state))) =
   Some \<lparr>exchangeId = 0, httpMethod = ''GET'', path = ''/orders'',
         headersIn = [(''accept'', ''*/*'')], startedAt = 0, status = None,
         headersOut = None, completedAt = None, durationMs = None, exchangeError = None\<rparr>"
  by (simp add: proxy_handler_def proxy_begin_def proxy_settle_def clone_def failing_worker_def
      example_request_def example_state_def startRequest_def admit_def getExchange_def)



text \<open>
  C10.  A \<^verbatim>\<open>GET\<close> of the health route returns the ok payload and, besides, puts one
  entry of level \<open>info\<close> and category \<open>system\<close> at the end of the log store: the
  store is changed by a request that only reads, and when it is full the oldest entry is
  dropped to make room.  The request store is not touched.
\<close>

theorem health_appends_log_entry:
  assumes "reqMethod req = ''GET''" and "reqPath req = API_PREFIX @ ''/health''"
  shows "fst (app_fetch cors sub env req t0 t1 st) =
           Json [(''status'', ''ok''),
                 (''message'', ''Localflare API is running with shared bindings.'')] 200 \<and>
         requestStore (snd (app_fetch cors sub env req t0 t1 st)) = requestStore st \<and>
         entries (logStore (snd (app_fetch cors sub env req t0 t1 st))) =
           (if logCapacity (logStore st) \<le> length (entries (logStore st))
            then drop 1 (entries (logStore st)) else entries (logStore st)) @
           [\<lparr>level = info, message = ''Health check: Localflare API is running'',
             ctx = None, category = Some ''system'', timestamp = t0\<rparr>]"
  using assms by (simp add: app_fetch_def routes_def health_def logStore_log_def admit_def)

theorem health_appends_log_entry_witness:
  "fst (app_fetch example_cors no_routers \<lparr>USER_WORKER = None\<rparr> health_request 7 7
          full_log_state) =
     Json [(''status'', ''ok''),
           (''message'', ''Localflare API is running with shared bindings.'')] 200 \<and>
   entries (logStore (snd (app_fetch example_cors no_routers \<lparr>USER_WORKER = None\<rparr>
                             health_request 7 7 full_log_state))) =
     [\<lparr>level = info, message = ''second'', ctx = None, category = None, timestamp = 2\<rparr>,
      \<lparr>level = info, message = ''Health check: Localflare API is running'', ctx = None,
       category = Some ''system'', timestamp = 7\<rparr>]"
proof -
  have get: "reqMethod health_request = ''GET''"
    by (simp add: health_request_def)
  have route: "reqPath health_request = API_PREFIX @ ''/health''"
    by (simp add: health_request_def API_PREFIX_def)
  show ?thesis
    using health_appends_log_entry [OF get route, of example_cors no_routers
        "\<lparr>USER_WORKER = None\<rparr>" 7 7 full_log_state]
    by (simp add: full_log_state_def)
qed

section \<open>Properties of the supervisor\<close>

lemma emit_simps [simp]:
  "effects (emit es s) = effects s @ es"
  "started (emit es s) = started s"
  "tui (emit es s) = tui s"
  "exitCode (emit es s) = exitCode s"
  by (simp_all add: emit_def)

lemma process_exit_simps [simp]:
  "effects (process_exit code s) = effects s @ [Exit code]"
  "started (process_exit code s) = started s"
  "tui (process_exit code s) = tui s"
  "exitCode (process_exit code s) = Some code"
  by (simp_all add: process_exit_def)

lemma run_exited: "exitCode s \<noteq> None \<Longrightarrow> run step evs s = s"
  by (cases evs) auto

lemma run_append: "run step (pre @ post) s = run step post (run step pre s)"
  by (induction pre arbitrary: s) (auto simp: run_exited)

lemma primary_step_alive:
  "\<not> is_close e \<Longrightarrow> exitCode (primary_step options e s) = exitCode s"
  by (cases e)
     (auto simp: is_close_def primary_stdout_def primary_stderr_def primary_shutdown_def
        tui_onExit_def Let_def)

lemma attach_step_alive:
  "\<not> is_close e \<Longrightarrow> exitCode (attach_step options e s) = exitCode s"
  by (cases e)
     (auto simp: is_close_def attach_stdout_def attach_stderr_def attach_shutdown_def)

lemma run_alive:
  assumes "\<And>e s. \<not> is_close e \<Longrightarrow> exitCode (step e s) = exitCode s"
    and "\<forall>e \<in> set pre. \<not> is_close e"
  shows "exitCode (run step pre s) = exitCode s"
  using assms(2) by (induction pre arbitrary: s) (auto simp: assms(1))

lemma run_until_close:
  assumes "\<And>e s. \<not> is_close e \<Longrightarrow> exitCode (step e s) = exitCode s"
    and "\<forall>e \<in> set pre. \<not> is_close e"
    and "exitCode s = None"
    and "\<And>s. exitCode (step (Close code) s) \<noteq> None"
  shows "run step (pre @ Close code # post) s = step (Close code) (run step pre s)"
proof -
  have "exitCode (run step pre s) = None"
    using run_alive [OF assms(1) assms(2)] assms(3) by simp
  then show ?thesis
    by (simp add: run_append run_exited assms(4))
qed

lemma primary_start_launched:
  assumes "primary_config sys configPath = Inr resolvedConfig"
    and "setupLocalflareDir sys resolvedConfig True = Inr (shadowConfigPath, manifest)"
  shows "exitCode (primary_start sys options configPath) = None"
  using assms by (simp add: primary_start_def Let_def initial_def)

lemma attach_start_launched:
  assumes "attach_config sys configPath = Inr resolvedConfig"
    and "setupLocalflareDir sys resolvedConfig False = Inr (shadowConfigPath, manifest)"
  shows "exitCode (attach_start sys options configPath) = None"
  using assms by (simp add: attach_start_def Let_def initial_def)

lemma primary_until_close:
  assumes "primary_config sys configPath = Inr resolvedConfig"
    and "setupLocalflareDir sys resolvedConfig True = Inr (shadowConfigPath, manifest)"
    and "\<forall>e \<in> set pre. \<not> is_close e"
  shows "primary sys options configPath (pre @ Close code # post) =
           primary_close code (primary sys options configPath pre)"
  unfolding primary_def
  using run_until_close [of "primary_step options" pre "primary_start sys options configPath" code post]
    primary_start_launched [OF assms(1,2)] assms(3)
  by (simp add: primary_step_alive primary_close_def Let_def)

lemma attach_until_close:
  assumes "attach_config sys configPath = Inr resolvedConfig"
    and "setupLocalflareDir sys resolvedConfig False = Inr (shadowConfigPath, manifest)"
    and "\<forall>e \<in> set pre. \<not> is_close e"
  shows "attach sys options configPath (pre @ Close code # post) =
           attach_close code (attach sys options configPath pre)"
  unfolding attach_def
  using run_until_close [of "attach_step options" pre "attach_start sys options configPath" code post]
    attach_start_launched [OF assms(1,2)] assms(3)
  by (simp add: attach_step_alive attach_close_def Let_def)

lemma showNat_digit: "n < 10 \<Longrightarrow> showNat n = [''0123456789'' ! n]"
  by (subst showNat.simps) simp

text \<open>
  C9.  In a run that got as far as spawning the child, a \<^verbatim>\<open>close\<close> event without
  an exit code (the child was ended by a signal, for instance by the supervisor's own
  SIGTERM after an interrupt) makes the supervisor exit with code 0.  All it does in that
  handler is unmount the terminal UI, if there is one, and exit: no diagnostic is printed.
  This holds in primary mode and in attach mode, whatever events came before.
\<close>

theorem signal_close_exits_zero:
  "(primary_config sys configPath = Inr resolvedConfig \<and>
    setupLocalflareDir sys resolvedConfig True = Inr (shadowConfigPath, manifest) \<and>
    (\<forall>e \<in> set pre. \<not> is_close e) \<longrightarrow>
      exitCode (primary sys options configPath (pre @ Close None # post)) = Some 0 \<and>
      effects (primary sys options configPath (pre @ Close None # post)) =
        effects (primary sys options configPath pre) @
        (if tui (primary sys options configPath pre) then [Unmount] else []) @ [Exit 0]) \<and>
   (attach_config sys configPath = Inr resolvedConfig' \<and>
    setupLocalflareDir sys resolvedConfig' False = Inr (shadowConfigPath', manifest') \<and>
    (\<forall>e \<in> set pre. \<not> is_close e) \<longrightarrow>
      exitCode (attach sys options configPath (pre @ Close None # post)) = Some 0 \<and>
      effects (attach sys options configPath (pre @ Close None # post)) =
        effects (attach sys options configPath pre) @ [Exit 0])"
proof (intro conjI impI)
  assume a: "primary_config sys configPath = Inr resolvedConfig \<and>
    setupLocalflareDir sys resolvedConfig True = Inr (shadowConfigPath, manifest) \<and>
    (\<forall>e \<in> set pre. \<not> is_close e)"
  then have run: "primary sys options configPath (pre @ Close None # post) =
                    primary_close None (primary sys options configPath pre)"
    using primary_until_close [of sys configPath resolvedConfig shadowConfigPath manifest pre
        options None post]
    by simp
  show "exitCode (primary sys options configPath (pre @ Close None # post)) = Some 0"
    by (simp add: run primary_close_def Let_def)
  show "effects (primary sys options configPath (pre @ Close None # post)) =
        effects (primary sys options configPath pre) @
        (if tui (primary sys options configPath pre) then [Unmount] else []) @ [Exit 0]"
    by (simp add: run primary_close_def Let_def)
next
  assume a: "attach_config sys configPath = Inr resolvedConfig' \<and>
    setupLocalflareDir sys resolvedConfig' False = Inr (shadowConfigPath', manifest') \<and>
    (\<forall>e \<in> set pre. \<not> is_close e)"
  then have run: "attach sys options configPath (pre @ Close None # post) =
                    attach_close None (attach sys options configPath pre)"
    using attach_until_close [of sys configPath resolvedConfig' shadowConfigPath' manifest' pre
        options None post]
    by simp
  show "exitCode (attach sys options configPath (pre @ Close None # post)) = Some 0"
    by (simp add: run attach_close_def)
  show "effects (attach sys options configPath (pre @ Close None # post)) =
        effects (attach sys options configPath pre) @ [Exit 0]"
    by (simp add: run attach_close_def)
qed

lemma example_sys_config:
  "primary_config example_sys None = Inr ''/app/wrangler.toml''"
  "attach_config example_sys None = Inr ''/app/wrangler.toml''"
  "setupLocalflareDir example_sys ''/app/wrangler.toml'' b =
     Inr (''/app/.localflare/wrangler.toml'', [''    DB (d1)''])"
  by (simp_all add: example_sys_def primary_config_def attach_config_def)

lemma example_primary_start:
  "primary_start example_sys example_options None =
     \<lparr>started = False, tui = False,
      effects =
        [ConsoleLog '''', ConsoleLog ''  Localflare'',
         ConsoleLog ''  Local Cloudflare Development Dashboard'', ConsoleLog '''',
         ConsoleLog ''  Detected: /app/wrangler.toml'',
         ConsoleLog ''  Linking bindings:'', ConsoleLog ''    DB (d1)'',
         ConsoleLog '''', ConsoleLog ''  Starting Development Environment...'',
         ConsoleLog '''',
         Spawn ''npx''
           [''wrangler'', ''dev'', ''-c'', ''/app/.localflare/wrangler.toml'',
            ''-c'', ''/app/wrangler.toml'', ''--persist-to'',
            ''/app/.wrangler/state'', ''--port'', ''8787'']
           ''/app''],
      exitCode = None\<rparr>"
  by (simp add: primary_start_def example_sys_config Let_def initial_def emit_def persistPath_def)
     (simp add: example_sys_def example_options_def)

lemma example_attach_start:
  "attach_start example_sys example_options None =
     \<lparr>started = False, tui = False,
      effects =
        [ConsoleLog '''', ConsoleLog ''  Localflare'',
         ConsoleLog ''  Attach Mode - Run alongside existing wrangler dev'', ConsoleLog '''',
         ConsoleLog ''  Detected: /app/wrangler.toml'',
         ConsoleLog ''  Bindings:'', ConsoleLog ''    DB (d1)'',
         ConsoleLog '''', ConsoleLog ''  Starting Localflare API on port 8787...'',
         ConsoleLog '''',
         Spawn ''npx''
           [''wrangler'', ''dev'', ''-c'', ''/app/.localflare/wrangler.toml'',
            ''--persist-to'', ''/app/.wrangler/state'', ''--port'', ''8787'']
           ''/app''],
      exitCode = None\<rparr>"
  by (simp add: attach_start_def example_sys_config Let_def initial_def emit_def persistPath_def)
     (simp add: example_sys_def example_options_def)

theorem signal_close_exits_zero_witness:
  "exitCode (primary example_sys example_options None ([Signal] @ Close None # [])) = Some 0 \<and>
   effects (primary example_sys example_options None ([Signal] @ Close None # [])) =
     effects (primary example_sys example_options None [Signal]) @ [Exit 0] \<and>
   exitCode (attach example_sys example_options None ([Signal] @ Close None # [])) = Some 0 \<and>
   effects (attach example_sys example_options None ([Signal] @ Close None # [])) =
     effects (attach example_sys example_options None [Signal]) @ [Exit 0]"
proof -
  have quiet: "\<forall>e \<in> set [Signal]. \<not> is_close e"
    by (simp add: is_close_def)
  have no_tui: "\<not> tui (primary example_sys example_options None [Signal])"
    by (simp add: primary_def example_primary_start primary_shutdown_def)
  show ?thesis
    using signal_close_exits_zero [of example_sys None "''/app/wrangler.toml''"
        "''/app/.localflare/wrangler.toml''" "[''    DB (d1)'']" "[Signal]" example_options "[]"
        "''/app/wrangler.toml''" "''/app/.localflare/wrangler.toml''" "[''    DB (d1)'']"]
      quiet no_tui
    by (simp add: example_sys_config)
qed

text \<open>
  C6, as the code has it.  In a run that got as far as spawning the child, a
  \<^verbatim>\<open>close\<close> event with a nonzero exit code makes the supervisor exit with that same
  code.  Before exiting, primary mode prints the code and a tip (try running wrangler dev
  directly); attach mode prints the code only.  When the config file is not found, or
  \<^verbatim>\<open>setupLocalflareDir\<close> throws, the supervisor prints a diagnostic and exits with
  code 1 without spawning a child, whatever events would follow.
\<close>

theorem exit_code_mirrors_child:
  "(primary_config sys configPath = Inr resolvedConfig \<and>
    setupLocalflareDir sys resolvedConfig True = Inr (shadowConfigPath, manifest) \<and>
    (\<forall>e \<in> set pre. \<not> is_close e) \<and> c \<noteq> 0 \<longrightarrow>
      exitCode (primary sys options configPath (pre @ Close (Some c) # post)) = Some c \<and>
      effects (primary sys options configPath (pre @ Close (Some c) # post)) =
        effects (primary sys options configPath pre) @
        (if tui (primary sys options configPath pre) then [Unmount] else []) @
        [ConsoleLog '''',
         ConsoleLog (''  Wrangler exited with code '' @ showInt c),
         ConsoleLog '''',
         ConsoleLog ''  Tip: Try running 'wrangler dev' directly to debug'',
         ConsoleLog '''',
         Exit c]) \<and>
   (attach_config sys configPath = Inr resolvedConfig' \<and>
    setupLocalflareDir sys resolvedConfig' False = Inr (shadowConfigPath', manifest') \<and>
    (\<forall>e \<in> set pre. \<not> is_close e) \<and> c \<noteq> 0 \<longrightarrow>
      exitCode (attach sys options configPath (pre @ Close (Some c) # post)) = Some c \<and>
      effects (attach sys options configPath (pre @ Close (Some c) # post)) =
        effects (attach sys options configPath pre) @
        [ConsoleLog (''  Localflare API exited with code '' @ showInt c), Exit c]) \<and>
   (primary_config sys configPath = Inl printed \<longrightarrow>
      exitCode (primary sys options configPath events) = Some 1 \<and>
      effects (primary sys options configPath events) =
        [ConsoleLog '''', ConsoleLog ''  Localflare'',
         ConsoleLog ''  Local Cloudflare Development Dashboard'', ConsoleLog ''''] @
        printed @ [Exit 1]) \<and>
   (primary_config sys configPath = Inr resolvedConfig \<and>
    setupLocalflareDir sys resolvedConfig True = Inl err \<longrightarrow>
      exitCode (primary sys options configPath events) = Some 1 \<and>
      effects (primary sys options configPath events) =
        [ConsoleLog '''', ConsoleLog ''  Localflare'',
         ConsoleLog ''  Local Cloudflare Development Dashboard'', ConsoleLog '''',
         ConsoleLog (''  Detected: '' @ resolvedConfig),
         ConsoleLog ''  Failed to start Localflare'', ConsoleLog (''    '' @ err),
         ConsoleLog '''', Exit 1]) \<and>
   (attach_config sys configPath = Inl printed' \<longrightarrow>
      exitCode (attach sys options configPath events) = Some 1 \<and>
      effects (attach sys options configPath events) =
        [ConsoleLog '''', ConsoleLog ''  Localflare'',
         ConsoleLog ''  Attach Mode - Run alongside existing wrangler dev'', ConsoleLog ''''] @
        printed' @ [Exit 1]) \<and>
   (attach_config sys configPath = Inr resolvedConfig' \<and>
    setupLocalflareDir sys resolvedConfig' False = Inl err' \<longrightarrow>
      exitCode (attach sys options configPath events) = Some 1 \<and>
      effects (attach sys options configPath events) =
        [ConsoleLog '''', ConsoleLog ''  Localflare'',
         ConsoleLog ''  Attach Mode - Run alongside existing wrangler dev'', ConsoleLog '''',
         ConsoleLog (''  Detected: '' @ resolvedConfig'),
         ConsoleLog ''  Failed to start Localflare'', ConsoleLog (''    '' @ err'),
         Exit 1])"
proof -
  have primary_crash:
    "exitCode (primary sys options configPath (pre @ Close (Some c) # post)) = Some c \<and>
      effects (primary sys options configPath (pre @ Close (Some c) # post)) =
        effects (primary sys options configPath pre) @
        (if tui (primary sys options configPath pre) then [Unmount] else []) @
        [ConsoleLog '''',
         ConsoleLog (''  Wrangler exited with code '' @ showInt c),
         ConsoleLog '''',
         ConsoleLog ''  Tip: Try running 'wrangler dev' directly to debug'',
         ConsoleLog '''',
         Exit c]"
    if "primary_config sys configPath = Inr resolvedConfig"
      "setupLocalflareDir sys resolvedConfig True = Inr (shadowConfigPath, manifest)"
      "\<forall>e \<in> set pre. \<not> is_close e" "c \<noteq> 0"
    using primary_until_close [OF that(1,2,3), of options "Some c" post] that(4)
    by (simp add: primary_close_def Let_def)
  have attach_crash:
    "exitCode (attach sys options configPath (pre @ Close (Some c) # post)) = Some c \<and>
      effects (attach sys options configPath (pre @ Close (Some c) # post)) =
        effects (attach sys options configPath pre) @
        [ConsoleLog (''  Localflare API exited with code '' @ showInt c), Exit c]"
    if "attach_config sys configPath = Inr resolvedConfig'"
      "setupLocalflareDir sys resolvedConfig' False = Inr (shadowConfigPath', manifest')"
      "\<forall>e \<in> set pre. \<not> is_close e" "c \<noteq> 0"
    using attach_until_close [OF that(1,2,3), of options "Some c" post] that(4)
    by (simp add: attach_close_def)
  have primary_not_found:
    "exitCode (primary sys options configPath events) = Some 1 \<and>
      effects (primary sys options configPath events) =
        [ConsoleLog '''', ConsoleLog ''  Localflare'',
         ConsoleLog ''  Local Cloudflare Development Dashboard'', ConsoleLog ''''] @
        printed @ [Exit 1]"
    if "primary_config sys configPath = Inl printed"
  proof -
    have "exitCode (primary_start sys options configPath) \<noteq> None"
      using that by (simp add: primary_start_def Let_def)
    then have "primary sys options configPath events = primary_start sys options configPath"
      by (simp add: primary_def run_exited)
    then show ?thesis
      using that by (simp add: primary_start_def Let_def initial_def)
  qed
  have primary_setup_failed:
    "exitCode (primary sys options configPath events) = Some 1 \<and>
      effects (primary sys options configPath events) =
        [ConsoleLog '''', ConsoleLog ''  Localflare'',
         ConsoleLog ''  Local Cloudflare Development Dashboard'', ConsoleLog '''',
         ConsoleLog (''  Detected: '' @ resolvedConfig),
         ConsoleLog ''  Failed to start Localflare'', ConsoleLog (''    '' @ err),
         ConsoleLog '''', Exit 1]"
    if "primary_config sys configPath = Inr resolvedConfig"
      "setupLocalflareDir sys resolvedConfig True = Inl err"
  proof -
    have "exitCode (primary_start sys options configPath) \<noteq> None"
      using that by (simp add: primary_start_def Let_def)
    then have "primary sys options configPath events = primary_start sys options configPath"
      by (simp add: primary_def run_exited)
    then show ?thesis
      using that by (simp add: primary_start_def Let_def initial_def)
  qed
  have attach_not_found:
    "exitCode (attach sys options configPath events) = Some 1 \<and>
      effects (attach sys options configPath events) =
        [ConsoleLog '''', ConsoleLog ''  Localflare'',
         ConsoleLog ''  Attach Mode - Run alongside existing wrangler dev'', ConsoleLog ''''] @
        printed' @ [Exit 1]"
    if "attach_config sys configPath = Inl printed'"
  proof -
    have "exitCode (attach_start sys options configPath) \<noteq> None"
      using that by (simp add: attach_start_def Let_def)
    then have "attach sys options configPath events = attach_start sys options configPath"
      by (simp add: attach_def run_exited)
    then show ?thesis
      using that by (simp add: attach_start_def Let_def initial_def)
  qed
  have attach_setup_failed:
    "exitCode (attach sys options configPath events) = Some 1 \<and>
      effects (attach sys options configPath events) =
        [ConsoleLog '''', ConsoleLog ''  Localflare'',
         ConsoleLog ''  Attach Mode - Run alongside existing wrangler dev'', ConsoleLog '''',
         ConsoleLog (''  Detected: '' @ resolvedConfig'),
         ConsoleLog ''  Failed to start Localflare'', ConsoleLog (''    '' @ err'),
         Exit 1]"
    if "attach_config sys configPath = Inr resolvedConfig'"
      "setupLocalflareDir sys resolvedConfig' False = Inl err'"
  proof -
    have "exitCode (attach_start sys options configPath) \<noteq> None"
      using that by (simp add: attach_start_def Let_def)
    then have "attach sys options configPath events = attach_start sys options configPath"
      by (simp add: attach_def run_exited)
    then show ?thesis
      using that by (simp add: attach_start_def Let_def initial_def)
  qed
  show ?thesis
    using primary_crash attach_crash primary_not_found primary_setup_failed
      attach_not_found attach_setup_failed
    by blast
qed

theorem exit_code_mirrors_child_witness:
  "exitCode (primary example_sys example_options None ([] @ Close (Some 3) # [])) = Some 3 \<and>
   effects (primary example_sys example_options None ([] @ Close (Some 3) # [])) =
     effects (primary example_sys example_options None []) @
     [ConsoleLog '''', ConsoleLog ''  Wrangler exited with code 3'', ConsoleLog '''',
      ConsoleLog ''  Tip: Try running 'wrangler dev' directly to debug'', ConsoleLog '''',
      Exit 3] \<and>
   exitCode (attach example_sys example_options None ([] @ Close (Some 3) # [])) = Some 3 \<and>
   exitCode (primary example_sys example_options (Some ''missing.toml'') [Stdout ''Ready'']) = Some 1 \<and>
   exitCode (attach broken_sys example_options None [Stdout ''Ready'']) = Some 1"
proof -
  have no_tui: "\<not> tui (primary example_sys example_options None [])"
    by (simp add: primary_def example_primary_start)
  have three: "showInt 3 = ''3''"
    by (simp add: showInt_def showNat_digit)
  have missing: "primary_config example_sys (Some ''missing.toml'') =
                   Inl [ConsoleLog ''  Could not find missing.toml'',
                        ConsoleLog ''    Make sure the file exists.'', ConsoleLog '''']"
    by (simp add: primary_config_def example_sys_def)
  have broken: "attach_config broken_sys None = Inr ''/app/wrangler.toml''"
    "setupLocalflareDir broken_sys ''/app/wrangler.toml'' False = Inl ''Error: invalid wrangler.toml''"
    by (simp_all add: attach_config_def broken_sys_def example_sys_def)
  show ?thesis
    using exit_code_mirrors_child [of example_sys None "''/app/wrangler.toml''"
        "''/app/.localflare/wrangler.toml''" "[''    DB (d1)'']" "[]" 3 example_options "[]"
        "''/app/wrangler.toml''" "''/app/.localflare/wrangler.toml''" "[''    DB (d1)'']"]
      exit_code_mirrors_child [of example_sys "Some ''missing.toml''" _ _ _ _ _ example_options _
        _ _ _ _ "[Stdout ''Ready'']", THEN conjunct2, THEN conjunct2, THEN conjunct1]
      exit_code_mirrors_child [of broken_sys None _ _ _ _ _ example_options _
        "''/app/wrangler.toml''" _ _ _ "[Stdout ''Ready'']" _ _ "''Error: invalid wrangler.toml''"]
      no_tui three missing broken
    by (simp add: example_sys_config is_close_def)
qed

text \<open>
  C6 as stated fails in attach mode: when the child exits with code 3, the close handler
  prints the line with the code and exits; no hint is printed.
\<close>

theorem attach_crash_hint_counterexample:
  "since (attach_start example_sys example_options None)
     (attach example_sys example_options None [Close (Some 3)]) =
   [ConsoleLog ''  Localflare API exited with code 3'', Exit 3]"
proof -
  have "showInt 3 = ''3''"
    by (simp add: showInt_def showNat_digit)
  then show ?thesis
    by (simp add: attach_def example_attach_start attach_close_def since_def)
qed

lemma primary_step_running:
  "\<exists>ys. effects (primary_step options e s) = effects s @ ys \<and>
     (if started s
      then started (primary_step options e s) \<and>
           filter announces_running ys = [] \<and> filter opens_browser ys = []
      else if (\<exists>c. e = Stdout c \<and> primary_ready c)
      then started (primary_step options e s) \<and>
           length (filter announces_running ys) = 1 \<and> length (filter opens_browser ys) \<le> 1
      else \<not> started (primary_step options e s) \<and>
           filter announces_running ys = [] \<and> filter opens_browser ys = [])"
proof (cases e)
  case (Stdout chunk)
  then show ?thesis
    by (simp add: primary_stdout_def primary_running_lines_def Let_def
        announces_running_def opens_browser_def)
next
  case (Stderr chunk)
  then show ?thesis
    by (simp add: primary_stderr_def announces_running_def opens_browser_def)
next
  case (Close code)
  then show ?thesis
    by (cases code)
       (simp_all add: primary_close_def Let_def announces_running_def opens_browser_def)
next
  case Signal
  then show ?thesis
    by (simp add: primary_shutdown_def announces_running_def opens_browser_def)
next
  case TuiExit
  then show ?thesis
    by (simp add: tui_onExit_def announces_running_def opens_browser_def)
qed

lemma attach_step_running:
  "\<exists>ys. effects (attach_step options e s) = effects s @ ys \<and>
     (if started s
      then started (attach_step options e s) \<and>
           filter announces_running ys = [] \<and> filter opens_browser ys = []
      else if (\<exists>c. e = Stdout c \<and> attach_ready c)
      then started (attach_step options e s) \<and>
           length (filter announces_running ys) = 1 \<and> length (filter opens_browser ys) \<le> 1
      else \<not> started (attach_step options e s) \<and>
           filter announces_running ys = [] \<and> filter opens_browser ys = [])"
proof (cases e)
  case (Stdout chunk)
  then show ?thesis
    by (simp add: attach_stdout_def attach_running_lines_def
        announces_running_def opens_browser_def)
next
  case (Stderr chunk)
  then show ?thesis
    by (simp add: attach_stderr_def announces_running_def opens_browser_def)
next
  case (Close code)
  then show ?thesis
    by (cases code)
       (simp_all add: attach_close_def announces_running_def opens_browser_def)
next
  case Signal
  then show ?thesis
    by (simp add: attach_shutdown_def announces_running_def opens_browser_def)
next
  case TuiExit
  then show ?thesis
    by simp
qed

lemma run_running:
  assumes step: "\<And>e s. \<exists>ys. effects (step e s) = effects s @ ys \<and>
     (if started s
      then started (step e s) \<and> filter A ys = [] \<and> filter B ys = []
      else if (\<exists>c. e = Stdout c \<and> ready c)
      then started (step e s) \<and> length (filter A ys) = 1 \<and> length (filter B ys) \<le> 1
      else \<not> started (step e s) \<and> filter A ys = [] \<and> filter B ys = [])"
  shows "\<exists>ys. effects (run step evs s) = effects s @ ys \<and>
     (if started s
      then started (run step evs s) \<and> filter A ys = [] \<and> filter B ys = []
      else (started (run step evs s) \<longrightarrow> (\<exists>c. Stdout c \<in> set evs \<and> ready c)) \<and>
           length (filter A ys) = (if started (run step evs s) then 1 else 0) \<and>
           length (filter B ys) \<le> (if started (run step evs s) then 1 else 0))"
proof (induction evs arbitrary: s)
  case Nil
  show ?case by simp
next
  case (Cons e evs)
  show ?case
  proof (cases "exitCode s \<noteq> None")
    case True
    then show ?thesis by simp
  next
    case False
    obtain ys1 where ys1: "effects (step e s) = effects s @ ys1"
      and s1: "if started s
        then started (step e s) \<and> filter A ys1 = [] \<and> filter B ys1 = []
        else if (\<exists>c. e = Stdout c \<and> ready c)
        then started (step e s) \<and> length (filter A ys1) = 1 \<and> length (filter B ys1) \<le> 1
        else \<not> started (step e s) \<and> filter A ys1 = [] \<and> filter B ys1 = []"
      using step [of e s] by blast
    obtain ys2 where ys2: "effects (run step evs (step e s)) = effects (step e s) @ ys2"
      and s2: "if started (step e s)
        then started (run step evs (step e s)) \<and> filter A ys2 = [] \<and> filter B ys2 = []
        else (started (run step evs (step e s)) \<longrightarrow> (\<exists>c. Stdout c \<in> set evs \<and> ready c)) \<and>
             length (filter A ys2) = (if started (run step evs (step e s)) then 1 else 0) \<and>
             length (filter B ys2) \<le> (if started (run step evs (step e s)) then 1 else 0)"
      using Cons.IH [of "step e s"] by blast
    have run: "run step (e # evs) s = run step evs (step e s)"
      using False by simp
    note alive = False
    have eff: "effects (run step (e # evs) s) = effects s @ (ys1 @ ys2)"
      unfolding run ys2 ys1 by simp
    show ?thesis
    proof (intro exI [of _ "ys1 @ ys2"] conjI)
      show "effects (run step (e # evs) s) = effects s @ ys1 @ ys2"
        using eff by simp
      show "if started s
        then started (run step (e # evs) s) \<and> filter A (ys1 @ ys2) = [] \<and>
             filter B (ys1 @ ys2) = []
        else (started (run step (e # evs) s) \<longrightarrow> (\<exists>c. Stdout c \<in> set (e # evs) \<and> ready c)) \<and>
             length (filter A (ys1 @ ys2)) = (if started (run step (e # evs) s) then 1 else 0) \<and>
             length (filter B (ys1 @ ys2)) \<le> (if started (run step (e # evs) s) then 1 else 0)"
      proof (cases "started s")
        case True
        then show ?thesis using s1 s2 alive by simp
      next
        case unstarted: False
        show ?thesis
        proof (cases "\<exists>c. e = Stdout c \<and> ready c")
          case True
          then have "started (step e s)" "length (filter A ys1) = 1" "length (filter B ys1) \<le> 1"
            using s1 unstarted by simp_all
          moreover from this s2 have "started (run step evs (step e s))"
            "filter A ys2 = []" "filter B ys2 = []"
            by simp_all
          ultimately show ?thesis
            using unstarted True alive by auto
        next
          case False
          then have "\<not> started (step e s)" "filter A ys1 = []" "filter B ys1 = []"
            using s1 unstarted by simp_all
          then show ?thesis
            using unstarted s2 alive by auto
        qed
      qed
    qed
  qed
qed

lemma start_not_started:
  "\<not> started (primary_start sys options configPath)"
  "\<not> started (attach_start sys options configPath)"
  by (auto simp: primary_start_def attach_start_def Let_def initial_def
      split: sum.splits prod.splits)

lemma since_append: "effects s' = effects s @ ys \<Longrightarrow> since s s' = ys"
  by (simp add: since_def)

text \<open>
  C7.  In every run, primary or attach: the supervisor is in the running state only if a
  chunk of the child's standard output containing one of the readiness phrases is among
  the events handled so far; the effects that show the running state (the success line on
  the console or \<^verbatim>\<open>tui.setStarted(true)\<close>, and the opening of the browser) are among
  the effects since launch once if the state is running and not at all otherwise, the
  browser at most once.
\<close>

theorem running_only_after_readiness:
  "(started (primary sys options configPath evs) \<longrightarrow>
      (\<exists>c. Stdout c \<in> set evs \<and> primary_ready c)) \<and>
   length (filter announces_running
             (since (primary_start sys options configPath) (primary sys options configPath evs))) =
     (if started (primary sys options configPath evs) then 1 else 0) \<and>
   length (filter opens_browser
             (since (primary_start sys options configPath) (primary sys options configPath evs))) \<le>
     (if started (primary sys options configPath evs) then 1 else 0) \<and>
   (started (attach sys options configPath evs) \<longrightarrow>
      (\<exists>c. Stdout c \<in> set evs \<and> attach_ready c)) \<and>
   length (filter announces_running
             (since (attach_start sys options configPath) (attach sys options configPath evs))) =
     (if started (attach sys options configPath evs) then 1 else 0) \<and>
   length (filter opens_browser
             (since (attach_start sys options configPath) (attach sys options configPath evs))) \<le>
     (if started (attach sys options configPath evs) then 1 else 0)"
proof -
  obtain ys where ys:
    "effects (primary sys options configPath evs) =
       effects (primary_start sys options configPath) @ ys"
    and p: "(started (primary sys options configPath evs) \<longrightarrow>
              (\<exists>c. Stdout c \<in> set evs \<and> primary_ready c)) \<and>
            length (filter announces_running ys) =
              (if started (primary sys options configPath evs) then 1 else 0) \<and>
            length (filter opens_browser ys) \<le>
              (if started (primary sys options configPath evs) then 1 else 0)"
    using run_running [of "primary_step options" announces_running opens_browser primary_ready
        evs "primary_start sys options configPath", OF primary_step_running]
      start_not_started(1) [of sys options configPath]
    unfolding primary_def by auto
  obtain zs where zs:
    "effects (attach sys options configPath evs) =
       effects (attach_start sys options configPath) @ zs"
    and a: "(started (attach sys options configPath evs) \<longrightarrow>
              (\<exists>c. Stdout c \<in> set evs \<and> attach_ready c)) \<and>
            length (filter announces_running zs) =
              (if started (attach sys options configPath evs) then 1 else 0) \<and>
            length (filter opens_browser zs) \<le>
              (if started (attach sys options configPath evs) then 1 else 0)"
    using run_running [of "attach_step options" announces_running opens_browser attach_ready
        evs "attach_start sys options configPath", OF attach_step_running]
      start_not_started(2) [of sys options configPath]
    unfolding attach_def by auto
  show ?thesis
    using p a by (simp add: since_append [OF ys] since_append [OF zs])
qed

theorem running_only_after_readiness_witness:
  "started (primary example_sys example_options None
              [Stdout ''Ready on http://localhost:8787'', Stdout ''Ready again'']) \<and>
   length (filter announces_running
             (since (primary_start example_sys example_options None)
                (primary example_sys example_options None
                   [Stdout ''Ready on http://localhost:8787'', Stdout ''Ready again'']))) = 1 \<and>
   \<not> started (attach example_sys example_options None [Stdout ''Starting local server'']) \<and>
   length (filter announces_running
             (since (attach_start example_sys example_options None)
                (attach example_sys example_options None [Stdout ''Starting local server'']))) = 0"
proof -
  have up: "started (primary example_sys example_options None
                       [Stdout ''Ready on http://localhost:8787'', Stdout ''Ready again''])"
    by (simp add: primary_def example_primary_start primary_stdout_def primary_ready_def
        Let_def)
  have down: "\<not> started (attach example_sys example_options None
                            [Stdout ''Starting local server''])"
    by (simp add: attach_def example_attach_start attach_stdout_def attach_ready_def)
  show ?thesis
    using running_only_after_readiness [of example_sys example_options None
        "[Stdout ''Ready on http://localhost:8787'', Stdout ''Ready again'']"]
      running_only_after_readiness [of example_sys example_options None
        "[Stdout ''Starting local server'']"]
      up down
    by simp
qed

text \<open>
  C8, as the code has it.  Once running and without the terminal UI, the handler of the
  child's standard output drops every chunk that matches a noise pattern and writes every
  other chunk through unchanged; the verbose option plays no part in this.
\<close>

theorem noise_filter_when_running:
  assumes "\<not> tui s" and "started s"
  shows "primary_stdout options output s =
           (if isLocalflareNoise output then s else emit [StdoutWrite output] s)"
  using assms by (simp add: primary_stdout_def Let_def)

theorem noise_filter_when_running_witness:
  "primary_stdout verbose_options ''GET /orders 200 OK'' running_console =
     emit [StdoutWrite ''GET /orders 200 OK''] running_console \<and>
   primary_stdout example_options ''Reloading local server...'' running_console =
     running_console"
proof -
  have console: "\<not> tui running_console" and running: "started running_console"
    by (simp_all add: running_console_def)
  have plain: "\<not> isLocalflareNoise ''GET /orders 200 OK''"
    by (simp add: isLocalflareNoise_def)
  have noise: "isLocalflareNoise ''Reloading local server...''"
    by (simp add: isLocalflareNoise_def)
  show ?thesis
    using noise_filter_when_running [OF console running, of verbose_options
        "''GET /orders 200 OK''"]
      noise_filter_when_running [OF console running, of example_options
        "''Reloading local server...''"]
      plain noise
    by simp
qed

text \<open>
  C8 as stated fails: with the verbose option set and the supervisor running on the plain
  console, a chunk of two lines, the first an ordinary request line and the second naming
  an inspector path, is dropped as a whole.  Verbose mode does not bring the noise back,
  and the line that matches no pattern is not written either: the run with that chunk ends
  in the same state, with the same output, as the run without it.
\<close>

theorem verbose_noise_counterexample:
  "opt_verbose verbose_options \<and>
   \<not> isLocalflareNoise ''GET /orders 200 OK'' \<and>
   primary example_sys verbose_options None
     [Stdout ''Ready on http://localhost:8787'', Stdout two_line_chunk] =
   primary example_sys verbose_options None [Stdout ''Ready on http://localhost:8787'']"
proof -
  have start: "\<not> tui (primary_start example_sys verbose_options None)"
    "exitCode (primary_start example_sys verbose_options None) = None"
    by (simp_all add: primary_start_def example_sys_config Let_def initial_def)
       (simp_all add: example_sys_def)
  have ready: "primary_ready ''Ready on http://localhost:8787''"
    by (simp add: primary_ready_def)
  have noise: "isLocalflareNoise two_line_chunk"
    by (simp add: isLocalflareNoise_def two_line_chunk_def)
  have plain: "\<not> isLocalflareNoise ''GET /orders 200 OK''"
    by (simp add: isLocalflareNoise_def)
  have verbose: "opt_verbose verbose_options"
    by (simp add: verbose_options_def)
  show ?thesis
    using start ready noise plain verbose
    by (simp add: primary_def primary_stdout_def Let_def start_not_started)
qed

section \<open>Properties of the config synthesizer\<close>

lemma filter_unique_key:
  assumes "distinct (map f xs)" and "b \<in> set xs" and "P b"
    and "\<And>d. d \<in> set xs \<Longrightarrow> P d \<Longrightarrow> f d = f b"
  shows "length (filter P xs) = 1"
  using assms
proof (induction xs)
  case Nil
  then show ?case by simp
next
  case (Cons x xs)
  show ?case
  proof (cases "x = b")
    case True
    have "\<not> P d" if "d \<in> set xs" for d
    proof
      assume "P d"
      then have "f d = f b"
        using Cons.prems(4) that by simp
      then have "f x \<in> f ` set xs"
        using True that by (metis imageI)
      then show False
        using Cons.prems(1) by simp
    qed
    then have "filter P xs = []"
      by (simp add: filter_empty_conv)
    then show ?thesis
      using True Cons.prems(3) by simp
  next
    case False
    then have b: "b \<in> set xs"
      using Cons.prems(2) by simp
    have "\<not> P x"
    proof
      assume "P x"
      then have "f x = f b"
        using Cons.prems(4) by simp
      then have "f x \<in> f ` set xs"
        using b by (metis imageI)
      then show False
        using Cons.prems(1) by simp
    qed
    moreover have "length (filter P xs) = 1"
    proof (rule Cons.IH)
      show "distinct (map f xs)"
        using Cons.prems(1) by simp
      show "b \<in> set xs"
        by (rule b)
      show "P b"
        by (rule Cons.prems(3))
      show "f d = f b" if "d \<in> set xs" "P d" for d
        using Cons.prems(4) that by simp
    qed
    ultimately show ?thesis by simp
  qed
qed

text \<open>
  C1.  For a source manifest that the parser accepts and every declaration in it that is
  not a plain variable, the synthesized companion manifest contains exactly one
  declaration with the same binding name, kind and resource identifier, in primary mode
  and in attach mode alike.
\<close>

theorem identifier_sharing:
  assumes "valid_manifest source" and "b \<in> set (bindings source)" and "kind b \<noteq> variable"
  shows "occurrences (bindingName b) (kind b) (resourceIdentifier b)
           (synthesize source isPrimary) = 1"
proof -
  let ?P = "\<lambda>d. kind d \<noteq> variable \<and> bindingName d = bindingName b \<and> kind d = kind b \<and>
                 resourceIdentifier d = resourceIdentifier b"
  have "length (filter ?P (bindings source)) = 1"
    using assms
    by (intro filter_unique_key [where f = "\<lambda>d. (kind d, bindingName d)" and b = b])
       (simp_all add: valid_manifest_def)
  moreover have
    "filter (\<lambda>d. bindingName d = bindingName b \<and> kind d = kind b \<and>
                  resourceIdentifier d = resourceIdentifier b)
       (filter (\<lambda>d. kind d \<noteq> variable) (bindings source)) =
     filter ?P (bindings source)"
    by simp
  ultimately show ?thesis
    by (simp add: occurrences_def synthesize_def)
qed

theorem identifier_sharing_witness:
  "valid_manifest example_manifest \<and>
   occurrences ''DB'' storage_db ''abc-123'' (synthesize example_manifest True) = 1"
proof -
  have valid: "valid_manifest example_manifest"
    by (simp add: valid_manifest_def example_manifest_def)
  have member: "\<lparr>kind = storage_db, bindingName = ''DB'', resourceIdentifier = ''abc-123''\<rparr>
                  \<in> set (bindings example_manifest)"
    by (simp add: example_manifest_def)
  show ?thesis
    using valid identifier_sharing [OF valid member, of True]
    by simp
qed

end
